theory Spec2Isabelle
  imports Complex_Main "HOL-Library.Word" "HOL-Library.AList" "HOL-Library.Monad_Syntax"
begin

unbundle bit_operations_syntax

section \<open>Values\<close>

text \<open>
  The entity record of \<^verbatim>\<open>libraries/entities/src/EntityItem.cpp\<close>. Machine integers are
  words of their width. A C++ \<^verbatim>\<open>float\<close> is idealised as a real number: the functions
  below compare, clamp, scale and add floats, and the statements proved about them are
  about the order of these operations and their thresholds, not about rounding.
\<close>

type_synonym quint64 = "64 word"
type_synonym QUuid = "128 word"
type_synonym QByteArray = "8 word list"
type_synonym vec3 = "real \<times> real \<times> real"
type_synonym quat = "real \<times> real \<times> real \<times> real"

definition ENTITY_ITEM_ZERO_VEC3 :: vec3 where
  "ENTITY_ITEM_ZERO_VEC3 = (0, 0, 0)"

definition USECS_PER_SECOND :: quint64 where
  "USECS_PER_SECOND = 1000000"

fun glm_length :: "vec3 \<Rightarrow> real" where
  "glm_length (x, y, z) = sqrt (x * x + y * y + z * z)"

fun vec3_scale :: "vec3 \<Rightarrow> real \<Rightarrow> vec3" where
  "vec3_scale (x, y, z) s = (x * s, y * s, z * s)"

fun vec3_add :: "vec3 \<Rightarrow> vec3 \<Rightarrow> vec3" where
  "vec3_add (x, y, z) (a, b, c) = (x + a, y + b, z + c)"

definition glm_clamp :: "real \<Rightarrow> real \<Rightarrow> real \<Rightarrow> real" where
  "glm_clamp x lo hi = min (max x lo) hi"

fun quat_mult :: "quat \<Rightarrow> quat \<Rightarrow> quat" where
  "quat_mult (pw, px, py, pz) (qw, qx, qy, qz) =
     (pw * qw - px * qx - py * qy - pz * qz,
      pw * qx + px * qw + py * qz - pz * qy,
      pw * qy + py * qw + pz * qx - px * qz,
      pw * qz + pz * qw + px * qy - py * qx)"

fun quat_normalize :: "quat \<Rightarrow> quat" where
  "quat_normalize (w, x, y, z) =
     (let len = sqrt (w * w + x * x + y * y + z * z)
      in if len \<le> 0 then (1, 0, 0, 0) else (w / len, x / len, y / len, z / len))"

text \<open>
  \<^verbatim>\<open>powf\<close> on the arguments \<^verbatim>\<open>simulateKinematicMotion\<close> gives it when the damping lies
  in [0, 1]: a base in [0, 1] and an exponent in [0, 1]. C has \<^verbatim>\<open>powf(x, 0) = 1\<close> for
  every \<^verbatim>\<open>x\<close> and \<^verbatim>\<open>powf(0, y) = 0\<close> for \<^verbatim>\<open>y > 0\<close>.
\<close>

definition powf :: "real \<Rightarrow> real \<Rightarrow> real" where
  "powf x y = (if y = 0 then 1 else if x = 0 then 0 else x powr y)"

datatype DirtyFlag =
    DIRTY_POSITION | DIRTY_ROTATION | DIRTY_LINEAR_VELOCITY | DIRTY_ANGULAR_VELOCITY
  | DIRTY_MASS | DIRTY_COLLISION_GROUP | DIRTY_MOTION_TYPE | DIRTY_SHAPE | DIRTY_LIFETIME
  | DIRTY_MATERIAL | DIRTY_PHYSICS_ACTIVATION | DIRTY_SIMULATOR_ID

text \<open>
  The dirty bits are one bit each, so the bitset \<^verbatim>\<open>_dirtyFlags\<close> is the set of the bits
  that are on: \<^verbatim>\<open>|=\<close> is union and a test with \<^verbatim>\<open>&\<close> asks for a common element.
\<close>

definition DIRTY_TRANSFORM :: "DirtyFlag set" where
  "DIRTY_TRANSFORM = {DIRTY_POSITION, DIRTY_ROTATION}"

definition DIRTY_VELOCITIES :: "DirtyFlag set" where
  "DIRTY_VELOCITIES = {DIRTY_LINEAR_VELOCITY, DIRTY_ANGULAR_VELOCITY}"

record SimulationOwner =
  ownerID :: QUuid
  ownerPriority :: "8 word"

record AACube =
  cubeCorner :: vec3
  cubeScale :: real

record EntityAction =
  actionID :: QUuid
  actionType :: nat
  actionArguments :: QByteArray
  locallyAddedButNotYetReceived :: bool
  suppressesLocationEdits :: bool
  hasOwnerEntity :: bool

record EntityTree =
  deletedEntities :: "QUuid list"

record EntityItem =
  entityItemID :: QUuid
  entityType :: "32 word"
  sourceUUID :: QUuid
  lastSimulated :: quint64
  lastUpdated :: quint64
  lastEdited :: quint64
  lastEditedFromRemote :: quint64
  lastEditedFromRemoteInRemoteTime :: quint64
  created :: quint64
  simulationOwner :: SimulationOwner
  localPosition :: vec3
  localOrientation :: quat
  velocity :: vec3
  angularVelocity :: vec3
  acceleration :: vec3
  dimensions :: vec3
  density :: real
  gravity :: vec3
  damping :: real
  restitution :: real
  friction :: real
  lifetime :: real
  script :: string
  scriptTimestamp :: quint64
  registrationPoint :: vec3
  angularDamping :: real
  visible :: bool
  collisionless :: bool
  collisionMask :: "8 word"
  dynamic :: bool
  locked :: bool
  userData :: string
  marketplaceID :: string
  name :: string
  collisionSoundURL :: string
  href :: string
  description :: string
  parentID :: QUuid
  parentJointIndex :: "16 word"
  queryAACube :: AACube
  dirtyFlags :: "DirtyFlag set"
  element :: "EntityTree option"
  objectActions :: "(QUuid \<times> EntityAction) list"
  previouslyDeletedActions :: "QUuid \<rightharpoonup> quint64"
  actionsToRemove :: "QUuid list"
  allActionsDataCache :: "QByteArray list"
  actionDataDirty :: bool
  actionDataNeedsTransmit :: bool
  glowLevel :: real
  localRenderAlpha :: real

section \<open>Properties, the wire and the environment\<close>

datatype EntityPropertyList =
    PROP_SIMULATION_OWNER | PROP_POSITION | PROP_ROTATION | PROP_VELOCITY
  | PROP_ANGULAR_VELOCITY | PROP_ACCELERATION | PROP_DIMENSIONS | PROP_DENSITY | PROP_GRAVITY
  | PROP_DAMPING | PROP_RESTITUTION | PROP_FRICTION | PROP_LIFETIME | PROP_SCRIPT
  | PROP_SCRIPT_TIMESTAMP | PROP_COLLISION_SOUND_URL | PROP_REGISTRATION_POINT
  | PROP_ANGULAR_DAMPING | PROP_VISIBLE | PROP_COLLISIONLESS | PROP_COLLISION_MASK
  | PROP_DYNAMIC | PROP_LOCKED | PROP_USER_DATA | PROP_MARKETPLACE_ID | PROP_NAME | PROP_HREF
  | PROP_DESCRIPTION | PROP_ACTION_DATA | PROP_PARENT_ID | PROP_PARENT_JOINT_INDEX
  | PROP_QUERY_AA_CUBE | PROP_CREATED | PROP_GLOW_LEVEL | PROP_LOCAL_RENDER_ALPHA
  | PROP_LAST_ITEM

datatype PropertyValue =
    VOwner SimulationOwner | VVec3 vec3 | VQuat quat | VFloat real | VString string
  | VU64 quint64 | VBool bool | VU8 "8 word" | VU16 "16 word" | VUuid QUuid
  | VBytes "QByteArray list" | VCube AACube

text \<open>
  Modelled from the spec: the byte writer \<^verbatim>\<open>OctreePacketData\<close>, the reader
  \<^verbatim>\<open>BufferParser\<close>, \<^verbatim>\<open>ByteCountCoded\<close>, \<^verbatim>\<open>PropertyFlags\<close> and the per-type packing
  functions are not among the sources. Section 6 of the specification gives the wire
  format as a sequence of fields: the raw object id, byte-count-coded counts, 8-byte
  timestamps, the byte-count-coded property flags and one payload per flagged property.
  A buffer is that sequence of fields; the byte length of a field is the environment's
  \<open>byteLength\<close>.
\<close>

datatype wire =
    WUuid QUuid | WCount nat | WU64 quint64 | WFlags "EntityPropertyList set"
  | WProp PropertyValue

text \<open>
  What the functions of \<^verbatim>\<open>EntityItem.cpp\<close> take from headers and collaborators that are
  not among the sources: the clock, the session id of the local node, byte lengths,
  protocol versions, limits, collision groups, the rotation step of the physics engine,
  and the serialisation of one action with the factory that builds an action from it.
\<close>

record Env =
  usecTimestampNow :: quint64
  sessionUUID :: QUuid
  byteLength :: "wire \<Rightarrow> nat"
  VERSION_ENTITIES_SUPPORT_SPLIT_MTU :: nat
  VERSION_ENTITIES_HAS_LAST_SIMULATED_TIME :: nat
  VERSION_ENTITIES_HAS_MARKETPLACE_ID :: nat
  VERSION_ENTITIES_HAS_MARKETPLACE_ID_DAMAGED :: nat
  UNKNOWN_CREATED_TIME :: quint64
  ENTITY_ITEM_MIN_DENSITY :: real
  ENTITY_ITEM_MAX_DENSITY :: real
  ENTITY_ITEM_MIN_RESTITUTION :: real
  ENTITY_ITEM_MAX_RESTITUTION :: real
  ENTITY_ITEM_MIN_FRICTION :: real
  ENTITY_ITEM_MAX_FRICTION :: real
  ENTITY_COLLISION_MASK_DEFAULT :: "8 word"
  USER_COLLISION_GROUP_MY_AVATAR :: "8 word"
  USER_COLLISION_GROUP_OTHER_AVATAR :: "8 word"
  USER_COLLISION_MASK_AVATARS :: "8 word"
  BULLET_COLLISION_GROUP_COLLISIONLESS :: "16 word"
  BULLET_COLLISION_GROUP_DYNAMIC :: "16 word"
  BULLET_COLLISION_GROUP_KINEMATIC :: "16 word"
  BULLET_COLLISION_GROUP_STATIC :: "16 word"
  getDefaultCollisionMask :: "16 word \<Rightarrow> 16 word"
  PHYSICS_ENGINE_FIXED_SUBSTEP :: real
  computeBulletRotationStep :: "vec3 \<Rightarrow> real \<Rightarrow> quat"
  serialize :: "EntityAction \<Rightarrow> QByteArray"
  streamTypeAndID :: "QByteArray \<Rightarrow> nat \<times> QUuid"
  deserialize :: "EntityAction \<Rightarrow> QByteArray \<Rightarrow> EntityAction"
  factoryBA :: "QByteArray \<Rightarrow> EntityAction option"

record ReadBitstreamToTreeParams =
  bitstreamVersion :: nat
  argsSourceUUID :: QUuid
  sourceNodeClockSkew :: "int option"
  entitiesPerPacket :: int

section \<open>The action ledger\<close>

definition maxActionsDataSize :: nat where
  "maxActionsDataSize = 800"

definition rememberDeletedActionTime :: quint64 where
  "rememberDeletedActionTime = 20 * USECS_PER_SECOND"

text \<open>
  \<^verbatim>\<open>_objectActions\<close> is a hash from action id to a shared action: an association list
  with one entry per id, iterated in list order. A write through an action pointer is a
  write to the entry. \<^verbatim>\<open>_allActionsDataCache\<close> holds a \<^verbatim>\<open>QDataStream\<close> image of a vector
  of byte arrays; it is kept as that vector, the empty vector standing for the empty
  array, and its size in bytes is that of the image: a 32-bit count, then each array
  behind its 32-bit length. The registry of the physics simulation, to which actions
  are also reported, is outside the record and is left out.
\<close>

definition dataStreamSize :: "QByteArray list \<Rightarrow> nat" where
  "dataStreamSize v = 4 + sum_list (map (\<lambda>b. 4 + length b) v)"

definition hasActions :: "EntityItem \<Rightarrow> bool" where
  "hasActions e = (objectActions e \<noteq> [])"

definition shouldSuppressLocationEdits :: "EntityItem \<Rightarrow> bool" where
  "shouldSuppressLocationEdits e =
     list_ex (\<lambda>(k, a). suppressesLocationEdits a) (objectActions e)"

definition serializeActions :: "Env \<Rightarrow> EntityItem \<Rightarrow> bool \<times> QByteArray list" where
  "serializeActions env e =
     (if objectActions e = [] then (True, [])
      else
        let serializedActions = map (\<lambda>(k, a). serialize env a) (objectActions e)
        in if dataStreamSize serializedActions \<ge> maxActionsDataSize
           then (False, serializedActions)
           else (True, serializedActions))"

definition addActionInternal :: "Env \<Rightarrow> EntityAction \<Rightarrow> EntityItem \<Rightarrow> bool \<times> EntityItem" where
  "addActionInternal env action e =
     (let e1 = e\<lparr>objectActions := AList.update (actionID action) action (objectActions e)\<rparr>;
          (success, newDataCache) = serializeActions env e1
      in if success
         then (True, e1\<lparr>allActionsDataCache := newDataCache,
                          dirtyFlags := dirtyFlags e1 \<union> {DIRTY_PHYSICS_ACTIVATION}\<rparr>)
         else (False, e1))"

definition removeActionInternal :: "Env \<Rightarrow> QUuid \<Rightarrow> EntityItem \<Rightarrow> bool \<times> EntityItem" where
  "removeActionInternal env actID e =
     (let e1 = e\<lparr>previouslyDeletedActions :=
                     (previouslyDeletedActions e)(actID \<mapsto> usecTimestampNow env)\<rparr>
      in case map_of (objectActions e1) actID of
           Some action \<Rightarrow>
             (let e2 = e1\<lparr>objectActions := AList.delete actID (objectActions e1)\<rparr>;
                  (success, cache) = serializeActions env e2
              in (success, e2\<lparr>allActionsDataCache := cache,
                                 dirtyFlags := dirtyFlags e2 \<union> {DIRTY_PHYSICS_ACTIVATION},
                                 actionDataNeedsTransmit := True\<rparr>))
         | None \<Rightarrow> (False, e1))"

definition checkWaitingToRemove :: "Env \<Rightarrow> EntityItem \<Rightarrow> EntityItem" where
  "checkWaitingToRemove env e =
     (fold (\<lambda>actID e'. snd (removeActionInternal env actID e')) (actionsToRemove e) e)
       \<lparr>actionsToRemove := []\<rparr>"

definition setLocallyAdded :: "QUuid \<Rightarrow> bool \<Rightarrow> EntityItem \<Rightarrow> EntityItem" where
  "setLocallyAdded actID b e =
     e\<lparr>objectActions :=
         map (\<lambda>(k, a). if k = actID then (k, a\<lparr>locallyAddedButNotYetReceived := b\<rparr>) else (k, a))
           (objectActions e)\<rparr>"

definition addAction :: "Env \<Rightarrow> EntityAction \<Rightarrow> EntityItem \<Rightarrow> bool \<times> EntityItem" where
  "addAction env action e =
     (let e0 = checkWaitingToRemove env e;
          (result, e1) = addActionInternal env action e0
      in if \<not> result
         then (result, snd (removeActionInternal env (actionID action) e1))
         else (result, setLocallyAdded (actionID action) True e1))"

definition removeAction :: "Env \<Rightarrow> QUuid \<Rightarrow> EntityItem \<Rightarrow> bool \<times> EntityItem" where
  "removeAction env actID e = removeActionInternal env actID (checkWaitingToRemove env e)"

text \<open>
  One turn of the \<^verbatim>\<open>foreach\<close> of \<^verbatim>\<open>deserializeActionsInternal\<close>; the state is the set
  \<^verbatim>\<open>updated\<close> and the record.
\<close>

definition deserializeOne ::
  "Env \<Rightarrow> QByteArray \<Rightarrow> QUuid set \<times> EntityItem \<Rightarrow> QUuid set \<times> EntityItem" where
  "deserializeOne env serializedAction st =
     (let (updated, e) = st;
          (actType, actID) = streamTypeAndID env serializedAction
      in if actID \<in> dom (previouslyDeletedActions e) then (updated, e)
         else
           (case map_of (objectActions e) actID of
              Some action \<Rightarrow>
                (insert actID updated,
                 e\<lparr>objectActions :=
                     AList.update actID
                       ((deserialize env action serializedAction)
                          \<lparr>locallyAddedButNotYetReceived := False\<rparr>)
                       (objectActions e)\<rparr>)
            | None \<Rightarrow>
                (case factoryBA env serializedAction of
                   Some action \<Rightarrow>
                     (insert actID updated,
                      setLocallyAdded (actionID action) False
                        (snd (addActionInternal env action e)))
                 | None \<Rightarrow> (insert actID updated, e))))"

definition removeUnmentioned :: "Env \<Rightarrow> QUuid set \<Rightarrow> EntityItem \<Rightarrow> EntityItem" where
  "removeUnmentioned env updated e =
     fold (\<lambda>(k, action) e'.
             if k \<notin> updated \<and> \<not> locallyAddedButNotYetReceived action
             then e'\<lparr>actionsToRemove := actionsToRemove e' @ [k],
                      previouslyDeletedActions :=
                        (previouslyDeletedActions e')(k \<mapsto> usecTimestampNow env)\<rparr>
             else e')
       (objectActions e) e"

definition trimPreviouslyDeleted :: "Env \<Rightarrow> EntityItem \<Rightarrow> EntityItem" where
  "trimPreviouslyDeleted env e =
     e\<lparr>previouslyDeletedActions :=
         (\<lambda>k. case previouslyDeletedActions e k of
                None \<Rightarrow> None
              | Some t \<Rightarrow>
                  if usecTimestampNow env - t > rememberDeletedActionTime then None
                  else Some t)\<rparr>"

definition deserializeActionsInternal :: "Env \<Rightarrow> EntityItem \<Rightarrow> EntityItem" where
  "deserializeActionsInternal env e =
     (if element e = None then e
      else
        let serializedActions = allActionsDataCache e;
            (updated, e1) = fold (deserializeOne env) serializedActions ({}, e);
            e2 = removeUnmentioned env updated e1;
            e3 = trimPreviouslyDeleted env e2
        in e3\<lparr>actionDataDirty := True\<rparr>)"

definition setActionDataInternal :: "Env \<Rightarrow> QByteArray list \<Rightarrow> EntityItem \<Rightarrow> EntityItem" where
  "setActionDataInternal env actionData e =
     checkWaitingToRemove env
       (if allActionsDataCache e \<noteq> actionData
        then deserializeActionsInternal env (e\<lparr>allActionsDataCache := actionData\<rparr>)
        else e)"

definition getActionData :: "Env \<Rightarrow> EntityItem \<Rightarrow> QByteArray list" where
  "getActionData env e =
     (if actionDataDirty e then snd (serializeActions env e) else allActionsDataCache e)"

section \<open>Mutators\<close>

text \<open>
  The record is taken without a parent in the nesting hierarchy and without children, so
  that the world frame of \<^verbatim>\<open>getPosition\<close> and \<^verbatim>\<open>getRotation\<close> is the local frame of
  \<^verbatim>\<open>getLocalPosition\<close> and \<^verbatim>\<open>getLocalOrientation\<close>, and \<^verbatim>\<open>forEachDescendant\<close> visits
  nothing. The cached bounding boxes are derived data and are left out.
\<close>

definition MIN_LINEAR_SPEED :: real where
  "MIN_LINEAR_SPEED = 0.001"

definition MIN_ANGULAR_SPEED :: real where
  "MIN_ANGULAR_SPEED = 0.0002"

definition updatePosition :: "vec3 \<Rightarrow> EntityItem \<Rightarrow> EntityItem" where
  "updatePosition v e =
     (if shouldSuppressLocationEdits e then e
      else if localPosition e \<noteq> v
           then e\<lparr>localPosition := v, dirtyFlags := dirtyFlags e \<union> {DIRTY_POSITION}\<rparr>
           else e)"

definition setDimensions :: "vec3 \<Rightarrow> EntityItem \<Rightarrow> EntityItem" where
  "setDimensions v e =
     (case v of (x, y, z) \<Rightarrow>
        if x \<le> 0 \<or> y \<le> 0 \<or> z \<le> 0 then e else e\<lparr>dimensions := v\<rparr>)"

definition updateDimensions :: "vec3 \<Rightarrow> EntityItem \<Rightarrow> EntityItem" where
  "updateDimensions v e =
     (if dimensions e \<noteq> v
      then (let e1 = setDimensions v e
            in e1\<lparr>dirtyFlags := dirtyFlags e1 \<union> {DIRTY_SHAPE, DIRTY_MASS}\<rparr>)
      else e)"

definition updateRotation :: "quat \<Rightarrow> EntityItem \<Rightarrow> EntityItem" where
  "updateRotation r e =
     (if shouldSuppressLocationEdits e then e
      else if localOrientation e \<noteq> r
           then e\<lparr>localOrientation := r, dirtyFlags := dirtyFlags e \<union> {DIRTY_ROTATION}\<rparr>
           else e)"

definition updateVelocity :: "vec3 \<Rightarrow> EntityItem \<Rightarrow> EntityItem" where
  "updateVelocity v e =
     (if shouldSuppressLocationEdits e then e
      else if velocity e \<noteq> v
           then (let e1 = (if glm_length v < MIN_LINEAR_SPEED
                           then e\<lparr>velocity := ENTITY_ITEM_ZERO_VEC3\<rparr>
                           else e\<lparr>velocity := v\<rparr>)
                 in e1\<lparr>dirtyFlags := dirtyFlags e1 \<union> {DIRTY_LINEAR_VELOCITY}\<rparr>)
           else e)"

definition updateAngularVelocity :: "vec3 \<Rightarrow> EntityItem \<Rightarrow> EntityItem" where
  "updateAngularVelocity v e =
     (if shouldSuppressLocationEdits e then e
      else if angularVelocity e \<noteq> v
           then (let e1 = (if glm_length v < MIN_ANGULAR_SPEED
                           then e\<lparr>angularVelocity := ENTITY_ITEM_ZERO_VEC3\<rparr>
                           else e\<lparr>angularVelocity := v\<rparr>)
                 in e1\<lparr>dirtyFlags := dirtyFlags e1 \<union> {DIRTY_ANGULAR_VELOCITY}\<rparr>)
           else e)"

definition updateDensity :: "Env \<Rightarrow> real \<Rightarrow> EntityItem \<Rightarrow> EntityItem" where
  "updateDensity env d e =
     (let clampedDensity = max (min d (ENTITY_ITEM_MAX_DENSITY env)) (ENTITY_ITEM_MIN_DENSITY env)
      in if density e \<noteq> clampedDensity
         then e\<lparr>density := clampedDensity, dirtyFlags := dirtyFlags e \<union> {DIRTY_MASS}\<rparr>
         else e)"

definition updateDamping :: "real \<Rightarrow> EntityItem \<Rightarrow> EntityItem" where
  "updateDamping v e =
     (let clampedDamping = glm_clamp v 0 1
      in if damping e \<noteq> clampedDamping
         then e\<lparr>damping := clampedDamping, dirtyFlags := dirtyFlags e \<union> {DIRTY_MATERIAL}\<rparr>
         else e)"

definition updateGravity :: "vec3 \<Rightarrow> EntityItem \<Rightarrow> EntityItem" where
  "updateGravity v e =
     (if gravity e \<noteq> v
      then e\<lparr>gravity := v, dirtyFlags := dirtyFlags e \<union> {DIRTY_LINEAR_VELOCITY}\<rparr>
      else e)"

definition updateAngularDamping :: "real \<Rightarrow> EntityItem \<Rightarrow> EntityItem" where
  "updateAngularDamping v e =
     (let clampedDamping = glm_clamp v 0 1
      in if angularDamping e \<noteq> clampedDamping
         then e\<lparr>angularDamping := clampedDamping,
                  dirtyFlags := dirtyFlags e \<union> {DIRTY_MATERIAL}\<rparr>
         else e)"

definition updateCollisionless :: "bool \<Rightarrow> EntityItem \<Rightarrow> EntityItem" where
  "updateCollisionless v e =
     (if collisionless e \<noteq> v
      then e\<lparr>collisionless := v, dirtyFlags := dirtyFlags e \<union> {DIRTY_COLLISION_GROUP}\<rparr>
      else e)"

definition updateCollisionMask :: "Env \<Rightarrow> 8 word \<Rightarrow> EntityItem \<Rightarrow> EntityItem" where
  "updateCollisionMask env v e =
     (if (collisionMask e AND ENTITY_COLLISION_MASK_DEFAULT env)
           \<noteq> (v AND ENTITY_COLLISION_MASK_DEFAULT env)
      then e\<lparr>collisionMask := v AND ENTITY_COLLISION_MASK_DEFAULT env,
               dirtyFlags := dirtyFlags e \<union> {DIRTY_COLLISION_GROUP}\<rparr>
      else e)"

definition updateDynamic :: "bool \<Rightarrow> EntityItem \<Rightarrow> EntityItem" where
  "updateDynamic v e =
     (if dynamic e \<noteq> v
      then e\<lparr>dynamic := v, dirtyFlags := dirtyFlags e \<union> {DIRTY_MOTION_TYPE}\<rparr>
      else e)"

definition updateRestitution :: "Env \<Rightarrow> real \<Rightarrow> EntityItem \<Rightarrow> EntityItem" where
  "updateRestitution env v e =
     (let clampedValue =
            max (min (ENTITY_ITEM_MAX_RESTITUTION env) v) (ENTITY_ITEM_MIN_RESTITUTION env)
      in if restitution e \<noteq> clampedValue
         then e\<lparr>restitution := clampedValue, dirtyFlags := dirtyFlags e \<union> {DIRTY_MATERIAL}\<rparr>
         else e)"

definition updateFriction :: "Env \<Rightarrow> real \<Rightarrow> EntityItem \<Rightarrow> EntityItem" where
  "updateFriction env v e =
     (let clampedValue =
            max (min (ENTITY_ITEM_MAX_FRICTION env) v) (ENTITY_ITEM_MIN_FRICTION env)
      in if friction e \<noteq> clampedValue
         then e\<lparr>friction := clampedValue, dirtyFlags := dirtyFlags e \<union> {DIRTY_MATERIAL}\<rparr>
         else e)"

definition updateLifetime :: "real \<Rightarrow> EntityItem \<Rightarrow> EntityItem" where
  "updateLifetime v e =
     (if lifetime e \<noteq> v
      then e\<lparr>lifetime := v, dirtyFlags := dirtyFlags e \<union> {DIRTY_LIFETIME}\<rparr>
      else e)"

definition updateCreated :: "quint64 \<Rightarrow> EntityItem \<Rightarrow> EntityItem" where
  "updateCreated v e =
     (if created e \<noteq> v
      then e\<lparr>created := v, dirtyFlags := dirtyFlags e \<union> {DIRTY_LIFETIME}\<rparr>
      else e)"

text \<open>
  \<^verbatim>\<open>QString::toLower\<close> on the letters A to Z; the strings of the model are byte strings.
\<close>

definition toLower :: "string \<Rightarrow> string" where
  "toLower s =
     map (\<lambda>c. if 65 \<le> (of_char c :: nat) \<and> (of_char c :: nat) \<le> 90
              then char_of ((of_char c :: nat) + 32) else c) s"

definition setHref :: "string \<Rightarrow> EntityItem \<Rightarrow> EntityItem" where
  "setHref v e = (if \<not> (take 7 (toLower v) = ''hifi://'') then e else e\<lparr>href := v\<rparr>)"

text \<open>
  Modelled from the spec: \<^verbatim>\<open>SimulationOwner\<close> is not among the sources. Section 4.4 has
  a claim accepted without condition, recording a change if owner id or priority differ
  from the current ones, and \<^verbatim>\<open>isSelfOwned\<close> comparing the owner with the local id;
  \<^verbatim>\<open>matchesValidID\<close> asks for a match with an id that is not null.
\<close>

definition SimulationOwner_set :: "SimulationOwner \<Rightarrow> SimulationOwner \<Rightarrow> bool \<times> SimulationOwner" where
  "SimulationOwner_set owner cur =
     (ownerID owner \<noteq> ownerID cur \<or> ownerPriority owner \<noteq> ownerPriority cur, owner)"

definition matchesValidID :: "QUuid \<Rightarrow> SimulationOwner \<Rightarrow> bool" where
  "matchesValidID i owner = (ownerID owner = i \<and> i \<noteq> 0)"

definition updateSimulationOwner :: "SimulationOwner \<Rightarrow> EntityItem \<Rightarrow> EntityItem" where
  "updateSimulationOwner owner e =
     (let (changed, owner') = SimulationOwner_set owner (simulationOwner e);
          e1 = e\<lparr>simulationOwner := owner'\<rparr>
      in if changed then e1\<lparr>dirtyFlags := dirtyFlags e1 \<union> {DIRTY_SIMULATOR_ID}\<rparr> else e1)"

section \<open>Kinematic extrapolation\<close>

definition hasVelocity :: "EntityItem \<Rightarrow> bool" where
  "hasVelocity e = (velocity e \<noteq> ENTITY_ITEM_ZERO_VEC3)"

definition hasAngularVelocity :: "EntityItem \<Rightarrow> bool" where
  "hasAngularVelocity e = (angularVelocity e \<noteq> ENTITY_ITEM_ZERO_VEC3)"

definition hasAcceleration :: "EntityItem \<Rightarrow> bool" where
  "hasAcceleration e = (acceleration e \<noteq> ENTITY_ITEM_ZERO_VEC3)"

definition isMoving :: "EntityItem \<Rightarrow> bool" where
  "isMoving e = (hasVelocity e \<or> hasAngularVelocity e)"

definition EPSILON_ANGULAR_VELOCITY_LENGTH :: real where
  "EPSILON_ANGULAR_VELOCITY_LENGTH = 0.0017453"

definition EPSILON_LINEAR_VELOCITY_LENGTH :: real where
  "EPSILON_LINEAR_VELOCITY_LENGTH = 0.001"

text \<open>
  The loop \<^verbatim>\<open>while (dt > PHYSICS_ENGINE_FIXED_SUBSTEP)\<close>. The substep is a positive
  constant of the physics engine; the test \<open>0 < h\<close> is there for the function to be
  total for every value of the parameter, and is true for the constant.
\<close>

function rotationSubsteps ::
  "(vec3 \<Rightarrow> real \<Rightarrow> quat) \<Rightarrow> real \<Rightarrow> vec3 \<Rightarrow> quat \<Rightarrow> real \<Rightarrow> quat \<times> real" where
  "rotationSubsteps step h w rotation dt =
     (if 0 < h \<and> dt > h
      then rotationSubsteps step h w (quat_normalize (quat_mult (step w h) rotation)) (dt - h)
      else (rotation, dt))"
  by pat_completeness auto
termination
proof (relation "measure (\<lambda>(step, h, w, rotation, dt). nat \<lceil>dt / h\<rceil>)")
  show "wf (measure (\<lambda>(step, h, w, rotation, dt). nat \<lceil>dt / h\<rceil>))"
    by simp
next
  fix step :: "vec3 \<Rightarrow> real \<Rightarrow> quat" and h :: real and w :: vec3 and rotation :: quat and dt :: real
  assume a: "0 < h \<and> h < dt"
  then have "(dt - h) / h = dt / h - 1"
    by (simp add: field_simps)
  then have "\<lceil>(dt - h) / h\<rceil> = \<lceil>dt / h\<rceil> - 1"
    by simp
  moreover from a have "1 < dt / h"
    by simp
  then have "1 < \<lceil>dt / h\<rceil>"
    by linarith
  ultimately show
    "((step, h, w, quat_normalize (quat_mult (step w h) rotation), dt - h),
      (step, h, w, rotation, dt))
       \<in> measure (\<lambda>(step, h, w, rotation, dt). nat \<lceil>dt / h\<rceil>)"
    by simp
qed

declare rotationSubsteps.simps [simp del]

definition simulateAngular :: "Env \<Rightarrow> real \<Rightarrow> bool \<Rightarrow> EntityItem \<Rightarrow> EntityItem" where
  "simulateAngular env timeElapsed setFlags e =
     (if hasAngularVelocity e then
        (let e1 = (if angularDamping e > 0
                   then e\<lparr>angularVelocity :=
                            vec3_scale (angularVelocity e) (powf (1 - angularDamping e) timeElapsed)\<rparr>
                   else e);
             angularSpeed = glm_length (angularVelocity e1)
         in if angularSpeed < EPSILON_ANGULAR_VELOCITY_LENGTH
            then (let e2 = (if setFlags \<and> angularSpeed > 0
                            then e1\<lparr>dirtyFlags := dirtyFlags e1 \<union> {DIRTY_MOTION_TYPE}\<rparr>
                            else e1)
                  in e2\<lparr>angularVelocity := ENTITY_ITEM_ZERO_VEC3\<rparr>)
            else
              (let (rotation, dt) =
                     rotationSubsteps (computeBulletRotationStep env)
                       (PHYSICS_ENGINE_FIXED_SUBSTEP env) (angularVelocity e1)
                       (localOrientation e1) timeElapsed;
                   dQ = computeBulletRotationStep env (angularVelocity e1) dt
               in e1\<lparr>localOrientation := quat_normalize (quat_mult dQ rotation)\<rparr>))
      else e)"

definition simulateLinear :: "real \<Rightarrow> bool \<Rightarrow> EntityItem \<Rightarrow> EntityItem" where
  "simulateLinear timeElapsed setFlags e =
     (if hasVelocity e then
        (let velocity0 = velocity e;
             velocity1 = (if damping e > 0
                          then vec3_scale velocity0 (powf (1 - damping e) timeElapsed)
                          else velocity0);
             position = localPosition e;
             newPosition = vec3_add position (vec3_scale velocity1 timeElapsed);
             velocity2 = (if hasAcceleration e
                          then vec3_add velocity1 (vec3_scale (acceleration e) timeElapsed)
                          else velocity1);
             speed = glm_length velocity2
         in if speed < EPSILON_LINEAR_VELOCITY_LENGTH
            then (let e1 = e\<lparr>velocity := ENTITY_ITEM_ZERO_VEC3\<rparr>
                  in if setFlags \<and> speed > 0
                     then e1\<lparr>dirtyFlags := dirtyFlags e1 \<union> {DIRTY_MOTION_TYPE}\<rparr>
                     else e1)
            else e\<lparr>localPosition := newPosition, velocity := velocity2\<rparr>)
      else e)"

text \<open>
  \<^verbatim>\<open>simulateKinematicMotion\<close>: the clamp, the return when actions are attached, then the
  block under \<^verbatim>\<open>hasAngularVelocity()\<close> and the block under \<^verbatim>\<open>hasVelocity()\<close>.
\<close>

definition simulateKinematicMotion :: "Env \<Rightarrow> real \<Rightarrow> bool \<Rightarrow> EntityItem \<Rightarrow> EntityItem" where
  "simulateKinematicMotion env timeElapsed setFlags e =
     (let timeElapsed' = glm_clamp timeElapsed 0 1
      in if hasActions e then e
         else simulateLinear timeElapsed' setFlags (simulateAngular env timeElapsed' setFlags e))"

section \<open>The property table\<close>



text \<open>
  The type named in each \<^verbatim>\<open>READ_ENTITY_PROPERTY\<close> line (and the type of the field for the
  three properties that only \<^verbatim>\<open>setProperties\<close> sets).
\<close>

definition valueFits :: "EntityPropertyList \<Rightarrow> PropertyValue \<Rightarrow> bool" where
  "valueFits P v =
     (case v of
        VOwner x \<Rightarrow> P = PROP_SIMULATION_OWNER
      | VVec3 x \<Rightarrow> P \<in> {PROP_POSITION, PROP_VELOCITY, PROP_ANGULAR_VELOCITY, PROP_ACCELERATION,
                         PROP_DIMENSIONS, PROP_GRAVITY, PROP_REGISTRATION_POINT}
      | VQuat x \<Rightarrow> P = PROP_ROTATION
      | VFloat x \<Rightarrow> P \<in> {PROP_DENSITY, PROP_DAMPING, PROP_RESTITUTION, PROP_FRICTION,
                          PROP_LIFETIME, PROP_ANGULAR_DAMPING, PROP_GLOW_LEVEL,
                          PROP_LOCAL_RENDER_ALPHA}
      | VString x \<Rightarrow> P \<in> {PROP_SCRIPT, PROP_COLLISION_SOUND_URL, PROP_USER_DATA,
                           PROP_MARKETPLACE_ID, PROP_NAME, PROP_HREF, PROP_DESCRIPTION}
      | VU64 x \<Rightarrow> P \<in> {PROP_SCRIPT_TIMESTAMP, PROP_CREATED}
      | VBool x \<Rightarrow> P \<in> {PROP_VISIBLE, PROP_COLLISIONLESS, PROP_DYNAMIC, PROP_LOCKED}
      | VU8 x \<Rightarrow> P = PROP_COLLISION_MASK
      | VU16 x \<Rightarrow> P = PROP_PARENT_JOINT_INDEX
      | VUuid x \<Rightarrow> P = PROP_PARENT_ID
      | VBytes x \<Rightarrow> P = PROP_ACTION_DATA
      | VCube x \<Rightarrow> P = PROP_QUERY_AA_CUBE)"

text \<open>
  The setter named in each \<^verbatim>\<open>READ_ENTITY_PROPERTY\<close> and
  \<^verbatim>\<open>SET_ENTITY_PROPERTY_FROM_PROPERTIES\<close> line, applied to a value of the property's type.
\<close>

definition applyProperty :: "Env \<Rightarrow> EntityPropertyList \<Rightarrow> PropertyValue \<Rightarrow> EntityItem \<Rightarrow> EntityItem" where
  "applyProperty env P v e =
     (if \<not> valueFits P v then e
      else
        case v of
          VOwner x \<Rightarrow> updateSimulationOwner x e
        | VVec3 x \<Rightarrow>
            (if P = PROP_POSITION then updatePosition x e
             else if P = PROP_VELOCITY then updateVelocity x e
             else if P = PROP_ANGULAR_VELOCITY then updateAngularVelocity x e
             else if P = PROP_ACCELERATION then e\<lparr>acceleration := x\<rparr>
             else if P = PROP_DIMENSIONS then updateDimensions x e
             else if P = PROP_GRAVITY then updateGravity x e
             else e\<lparr>registrationPoint := x\<rparr>)
        | VQuat x \<Rightarrow> updateRotation x e
        | VFloat x \<Rightarrow>
            (if P = PROP_DENSITY then updateDensity env x e
             else if P = PROP_DAMPING then updateDamping x e
             else if P = PROP_RESTITUTION then updateRestitution env x e
             else if P = PROP_FRICTION then updateFriction env x e
             else if P = PROP_LIFETIME then updateLifetime x e
             else if P = PROP_ANGULAR_DAMPING then updateAngularDamping x e
             else if P = PROP_GLOW_LEVEL then e\<lparr>glowLevel := x\<rparr>
             else e\<lparr>localRenderAlpha := x\<rparr>)
        | VString x \<Rightarrow>
            (if P = PROP_SCRIPT then e\<lparr>script := x\<rparr>
             else if P = PROP_COLLISION_SOUND_URL then e\<lparr>collisionSoundURL := x\<rparr>
             else if P = PROP_USER_DATA then e\<lparr>userData := x\<rparr>
             else if P = PROP_MARKETPLACE_ID then e\<lparr>marketplaceID := x\<rparr>
             else if P = PROP_NAME then e\<lparr>name := x\<rparr>
             else if P = PROP_HREF then setHref x e
             else e\<lparr>description := x\<rparr>)
        | VU64 x \<Rightarrow>
            (if P = PROP_SCRIPT_TIMESTAMP then e\<lparr>scriptTimestamp := x\<rparr>
             else updateCreated x e)
        | VBool x \<Rightarrow>
            (if P = PROP_VISIBLE then e\<lparr>visible := x\<rparr>
             else if P = PROP_COLLISIONLESS then updateCollisionless x e
             else if P = PROP_DYNAMIC then updateDynamic x e
             else e\<lparr>locked := x\<rparr>)
        | VU8 x \<Rightarrow> updateCollisionMask env x e
        | VU16 x \<Rightarrow> e\<lparr>parentJointIndex := x\<rparr>
        | VUuid x \<Rightarrow> e\<lparr>parentID := x\<rparr>
        | VBytes x \<Rightarrow> setActionDataInternal env x e
        | VCube x \<Rightarrow> e\<lparr>queryAACube := x\<rparr>)"

section \<open>The encoder\<close>










section \<open>The decoder\<close>

definition MINIMUM_HEADER_BYTES :: int where
  "MINIMUM_HEADER_BYTES = 27"

text \<open>
  Modelled from the spec: \<^verbatim>\<open>BufferParser\<close>. A read takes the next field of the buffer;
  where that field is missing or of another kind the source reads bytes that are not
  there or not meant, and the model has no result.
\<close>

fun readUuid :: "wire list \<Rightarrow> (QUuid \<times> wire list) option" where
  "readUuid (WUuid u # rest) = Some (u, rest)"
| "readUuid _ = None"

fun readCompressedCount :: "wire list \<Rightarrow> (nat \<times> wire list) option" where
  "readCompressedCount (WCount n # rest) = Some (n, rest)"
| "readCompressedCount _ = None"

fun readValue :: "wire list \<Rightarrow> (quint64 \<times> wire list) option" where
  "readValue (WU64 v # rest) = Some (v, rest)"
| "readValue _ = None"

fun readFlags :: "wire list \<Rightarrow> (EntityPropertyList set \<times> wire list) option" where
  "readFlags (WFlags f # rest) = Some (f, rest)"
| "readFlags _ = None"

definition acceptCreated :: "Env \<Rightarrow> int \<Rightarrow> quint64 \<Rightarrow> EntityItem \<Rightarrow> EntityItem" where
  "acceptCreated env clockSkew createdFromBuffer e =
     (if created e = UNKNOWN_CREATED_TIME env
      then (let createdFromBuffer1 = createdFromBuffer - word_of_int clockSkew;
                createdFromBuffer2 =
                  (if createdFromBuffer1 > usecTimestampNow env
                      \<or> createdFromBuffer1 = UNKNOWN_CREATED_TIME env
                   then usecTimestampNow env else createdFromBuffer1)
            in e\<lparr>created := createdFromBuffer2\<rparr>)
      else e)"

definition adjustLastEdited :: "Env \<Rightarrow> int \<Rightarrow> quint64 \<Rightarrow> quint64" where
  "adjustLastEdited env clockSkew lastEditedFromBuffer =
     (let lastEditedFromBufferAdjusted = lastEditedFromBuffer - word_of_int clockSkew
      in if lastEditedFromBufferAdjusted > usecTimestampNow env then usecTimestampNow env
         else lastEditedFromBufferAdjusted)"

definition isDeletedEntity :: "QUuid \<Rightarrow> EntityTree \<Rightarrow> bool" where
  "isDeletedEntity i tree = (i \<in> set (deletedEntities tree))"

text \<open>The lines that set \<^verbatim>\<open>ignoreServerPacket\<close>, in their order.\<close>

definition ignoreServerPacket :: "EntityItem \<Rightarrow> quint64 \<Rightarrow> quint64 \<Rightarrow> bool" where
  "ignoreServerPacket e lastEditedFromBuffer lastEditedFromBufferAdjusted =
     (let fromSameServerEdit = (lastEditedFromBuffer = lastEditedFromRemoteInRemoteTime e);
          ignore0 = False;
          ignore1 = (if fromSameServerEdit
                     then (if lastEdited e > lastEditedFromRemote e then True else ignore0)
                     else (if lastEdited e > lastEditedFromBufferAdjusted then True else ignore0));
          ignore2 = (case element e of
                       Some tree \<Rightarrow> if isDeletedEntity (entityItemID e) tree then True else ignore1
                     | None \<Rightarrow> ignore1)
      in ignore2)"

type_synonym readState = "wire list \<times> int \<times> EntityItem"

definition readSimulationOwner :: "Env \<Rightarrow> EntityPropertyList set \<Rightarrow> readState \<Rightarrow> readState option" where
  "readSimulationOwner env flags st =
     (case st of (dataAt, bytesRead, e) \<Rightarrow>
        if PROP_SIMULATION_OWNER \<in> flags then
          (case dataAt of
             WProp (VOwner newSimOwner) # rest \<Rightarrow>
               (let (changed, owner') = SimulationOwner_set newSimOwner (simulationOwner e);
                    e1 = e\<lparr>simulationOwner := owner'\<rparr>;
                    e2 = (if changed
                          then e1\<lparr>dirtyFlags := dirtyFlags e1 \<union> {DIRTY_SIMULATOR_ID}\<rparr>
                          else e1)
                in Some (rest, bytesRead + int (byteLength env (WProp (VOwner newSimOwner))), e2))
           | _ \<Rightarrow> None)
        else Some st)"

definition READ_ENTITY_PROPERTY ::
  "Env \<Rightarrow> EntityPropertyList set \<Rightarrow> bool \<Rightarrow> EntityPropertyList \<Rightarrow> readState \<Rightarrow> readState option" where
  "READ_ENTITY_PROPERTY env flags overwriteLocalData P st =
     (case st of (dataAt, bytesRead, e) \<Rightarrow>
        if P \<in> flags then
          (case dataAt of
             WProp fromBuffer # rest \<Rightarrow>
               if valueFits P fromBuffer
               then Some (rest, bytesRead + int (byteLength env (WProp fromBuffer)),
                          if overwriteLocalData then applyProperty env P fromBuffer e else e)
               else None
           | _ \<Rightarrow> None)
        else Some st)"

fun readProperties ::
  "Env \<Rightarrow> EntityPropertyList set \<Rightarrow> bool \<Rightarrow> EntityPropertyList list \<Rightarrow> readState \<Rightarrow> readState option" where
  "readProperties env flags overwriteLocalData [] st = Some st"
| "readProperties env flags overwriteLocalData (P # Ps) st =
     (case READ_ENTITY_PROPERTY env flags overwriteLocalData P st of
        None \<Rightarrow> None
      | Some st' \<Rightarrow> readProperties env flags overwriteLocalData Ps st')"

definition terseOrder :: "EntityPropertyList list" where
  "terseOrder =
     [PROP_POSITION, PROP_ROTATION, PROP_VELOCITY, PROP_ANGULAR_VELOCITY, PROP_ACCELERATION]"

definition readOrderBeforeMarketplace :: "EntityPropertyList list" where
  "readOrderBeforeMarketplace =
     [PROP_DIMENSIONS, PROP_DENSITY, PROP_GRAVITY, PROP_DAMPING, PROP_RESTITUTION,
      PROP_FRICTION, PROP_LIFETIME, PROP_SCRIPT, PROP_SCRIPT_TIMESTAMP,
      PROP_REGISTRATION_POINT, PROP_ANGULAR_DAMPING, PROP_VISIBLE, PROP_COLLISIONLESS,
      PROP_COLLISION_MASK, PROP_DYNAMIC, PROP_LOCKED, PROP_USER_DATA]"

definition readOrderAfterMarketplace :: "EntityPropertyList list" where
  "readOrderAfterMarketplace =
     [PROP_NAME, PROP_COLLISION_SOUND_URL, PROP_HREF, PROP_DESCRIPTION, PROP_ACTION_DATA,
      PROP_PARENT_ID, PROP_PARENT_JOINT_INDEX, PROP_QUERY_AA_CUBE]"

text \<open>
  What follows the property flags in \<^verbatim>\<open>readEntityDataFromBuffer\<close>: the simulation owner,
  the transform and velocities under the narrowed \<^verbatim>\<open>overwriteLocalData\<close>, the other
  properties, the extrapolation and \<^verbatim>\<open>_lastSimulated\<close>. The base class reads no subclass
  data.
\<close>

definition readEntityProperties ::
  "Env \<Rightarrow> ReadBitstreamToTreeParams \<Rightarrow> EntityPropertyList set \<Rightarrow> bool \<Rightarrow> quint64
     \<Rightarrow> readState \<Rightarrow> (int \<times> EntityItem) option" where
  "readEntityProperties env args flags overwriteLocalData lastSimulatedFromBufferAdjusted st0 =
     (case st0 of (dataAt0, bytesRead0, e0) \<Rightarrow>
      do {
        let now = usecTimestampNow env;
        let myNodeID = sessionUUID env;
        let weOwnSimulation = matchesValidID myNodeID (simulationOwner e0);
        st1 \<leftarrow> readSimulationOwner env flags st0;
        st2 \<leftarrow> readProperties env flags (overwriteLocalData \<and> \<not> weOwnSimulation) terseOrder st1;
        st3 \<leftarrow> readProperties env flags overwriteLocalData readOrderBeforeMarketplace st2;
        st4 \<leftarrow> (if bitstreamVersion args \<ge> VERSION_ENTITIES_HAS_MARKETPLACE_ID env
                then readProperties env flags overwriteLocalData [PROP_MARKETPLACE_ID] st3
                else Some st3);
        st5 \<leftarrow> readProperties env flags overwriteLocalData readOrderAfterMarketplace st4;
        st6 \<leftarrow> (if bitstreamVersion args = VERSION_ENTITIES_HAS_MARKETPLACE_ID_DAMAGED env
                then readProperties env flags overwriteLocalData [PROP_MARKETPLACE_ID] st5
                else Some st5);
        let (dataAt, bytesRead, e6) = st6;
        let e7 = (if overwriteLocalData
                     \<and> dirtyFlags e6 \<inter> (DIRTY_TRANSFORM \<union> DIRTY_VELOCITIES) \<noteq> {}
                  then (let skipTimeForward =
                              real (unat (now - lastSimulatedFromBufferAdjusted))
                                / real (unat USECS_PER_SECOND)
                        in simulateKinematicMotion env skipTimeForward False e6)
                  else e6);
        let e8 = (if overwriteLocalData \<and> \<not> matchesValidID myNodeID (simulationOwner e7)
                  then e7\<lparr>lastSimulated := now\<rparr> else e7);
        Some (bytesRead, e8)
      })"

definition readEntityHeader ::
  "Env \<Rightarrow> wire list \<Rightarrow> ReadBitstreamToTreeParams \<Rightarrow> EntityItem \<Rightarrow> (int \<times> EntityItem) option" where
  "readEntityHeader env data args e =
     do {
       let clockSkew = (case sourceNodeClockSkew args of Some skew \<Rightarrow> skew | None \<Rightarrow> 0);
       (i, d1) \<leftarrow> readUuid data;
       let e1 = e\<lparr>entityItemID := i\<rparr>;
       (t, d2) \<leftarrow> readCompressedCount d1;
       let e2 = e1\<lparr>entityType := of_nat t\<rparr>;
       let now = usecTimestampNow env;
       (createdFromBuffer, d3) \<leftarrow> readValue d2;
       let e3 = acceptCreated env clockSkew createdFromBuffer e2;
       (lastEditedFromBuffer, d4) \<leftarrow> readValue d3;
       let lastEditedFromBufferAdjusted = adjustLastEdited env clockSkew lastEditedFromBuffer;
       let ignore = ignoreServerPacket e3 lastEditedFromBuffer lastEditedFromBufferAdjusted;
       let overwriteLocalData = \<not> ignore;
       let e4 = (if ignore then e3
                 else e3\<lparr>lastEdited := lastEditedFromBufferAdjusted,
                          lastEditedFromRemote := now,
                          lastEditedFromRemoteInRemoteTime := lastEditedFromBuffer\<rparr>);
       (updateDelta, d5) \<leftarrow> readCompressedCount d4;
       let e5 = (if overwriteLocalData
                 then e4\<lparr>lastUpdated := lastEditedFromBufferAdjusted + of_nat updateDelta\<rparr>
                 else e4);
       (lastSimulatedFromBufferAdjusted, d6) \<leftarrow>
         (if bitstreamVersion args \<ge> VERSION_ENTITIES_HAS_LAST_SIMULATED_TIME env
          then do {
                 (simulatedDelta, d) \<leftarrow> readCompressedCount d5;
                 Some (if overwriteLocalData
                       then (let s = lastEditedFromBufferAdjusted + of_nat simulatedDelta
                             in if s > now then now else s)
                       else now, d)
               }
          else Some (now, d5));
       (flags, d7) \<leftarrow> readFlags d6;
       let bytesRead = int (sum_list (map (byteLength env) (take (length data - length d7) data)));
       readEntityProperties env args flags overwriteLocalData lastSimulatedFromBufferAdjusted
         (d7, bytesRead, e5)
     }"

definition readEntityDataFromBuffer ::
  "Env \<Rightarrow> wire list \<Rightarrow> int \<Rightarrow> ReadBitstreamToTreeParams \<Rightarrow> EntityItem
     \<Rightarrow> (int \<times> ReadBitstreamToTreeParams \<times> EntityItem) option" where
  "readEntityDataFromBuffer env data bytesLeftToRead args e =
     (if bitstreamVersion args < VERSION_ENTITIES_SUPPORT_SPLIT_MTU env then Some (0, args, e)
      else
        let e0 = e\<lparr>sourceUUID := argsSourceUUID args\<rparr>;
            args1 = args\<lparr>entitiesPerPacket := entitiesPerPacket args + 1\<rparr>
        in if bytesLeftToRead < MINIMUM_HEADER_BYTES then Some (0, args1, e0)
           else map_option (\<lambda>(bytesRead, e'). (bytesRead, args1, e'))
                  (readEntityHeader env data args1 e0))"

section \<open>Setting properties\<close>

text \<open>
  Modelled from the spec: \<^verbatim>\<open>EntityItemProperties\<close> is not among the sources. It holds a
  value and a changed mark for each property, kept here as the map from the properties
  marked as changed to their values, and the creation time that \<^verbatim>\<open>getCreated\<close> returns.
  \<^verbatim>\<open>setLastEdited\<close> is taken to store the time of the last edit.
\<close>

record EntityItemProperties =
  changedProperties :: "EntityPropertyList \<rightharpoonup> PropertyValue"
  propertiesCreated :: quint64

definition SET_ENTITY_PROPERTY_FROM_PROPERTIES ::
  "Env \<Rightarrow> EntityItemProperties \<Rightarrow> EntityPropertyList \<Rightarrow> bool \<times> EntityItem \<Rightarrow> bool \<times> EntityItem" where
  "SET_ENTITY_PROPERTY_FROM_PROPERTIES env properties P st =
     (case changedProperties properties P of
        Some v \<Rightarrow> (True, applyProperty env P v (snd st))
      | None \<Rightarrow> st)"

definition setOrder :: "EntityPropertyList list" where
  "setOrder =
     [PROP_SIMULATION_OWNER, PROP_POSITION, PROP_ROTATION, PROP_VELOCITY,
      PROP_ANGULAR_VELOCITY, PROP_ACCELERATION, PROP_DIMENSIONS, PROP_REGISTRATION_POINT,
      PROP_DENSITY, PROP_GRAVITY, PROP_DAMPING, PROP_ANGULAR_DAMPING, PROP_RESTITUTION,
      PROP_FRICTION, PROP_COLLISIONLESS, PROP_COLLISION_MASK, PROP_DYNAMIC, PROP_CREATED,
      PROP_LIFETIME, PROP_SCRIPT, PROP_SCRIPT_TIMESTAMP, PROP_COLLISION_SOUND_URL,
      PROP_GLOW_LEVEL, PROP_LOCAL_RENDER_ALPHA, PROP_VISIBLE, PROP_LOCKED, PROP_USER_DATA,
      PROP_MARKETPLACE_ID, PROP_NAME, PROP_HREF, PROP_DESCRIPTION, PROP_ACTION_DATA,
      PROP_PARENT_ID, PROP_PARENT_JOINT_INDEX, PROP_QUERY_AA_CUBE]"

definition setProperties :: "Env \<Rightarrow> EntityItemProperties \<Rightarrow> EntityItem \<Rightarrow> bool \<times> EntityItem" where
  "setProperties env properties e =
     (let (somethingChanged, e1) =
            fold (SET_ENTITY_PROPERTY_FROM_PROPERTIES env properties) setOrder (False, e);
          e2 = (if somethingChanged
                then (let now = usecTimestampNow env;
                          e' = e1\<lparr>lastEdited := now\<rparr>
                      in if dirtyFlags e' \<inter> (DIRTY_TRANSFORM \<union> DIRTY_VELOCITIES) \<noteq> {}
                         then e'\<lparr>lastSimulated := now\<rparr> else e')
                else e1);
          timestamp = propertiesCreated properties;
          e3 = (if created e2 = UNKNOWN_CREATED_TIME env \<and> timestamp \<noteq> UNKNOWN_CREATED_TIME env
                then (let now = usecTimestampNow env
                      in e2\<lparr>created := (if timestamp > now then now else timestamp)\<rparr>)
                else e2)
      in (somethingChanged, e3))"

definition recordCreationTime :: "Env \<Rightarrow> EntityItem \<Rightarrow> EntityItem" where
  "recordCreationTime env e =
     (let e1 = (if created e = UNKNOWN_CREATED_TIME env
                then e\<lparr>created := usecTimestampNow env\<rparr> else e);
          now = usecTimestampNow env
      in e1\<lparr>lastEdited := created e1, lastUpdated := now, lastSimulated := now\<rparr>)"

section \<open>Collision group and mask\<close>

definition computeCollisionGroupAndFinalMask :: "Env \<Rightarrow> EntityItem \<Rightarrow> 16 word \<times> 16 word" where
  "computeCollisionGroupAndFinalMask env e =
     (if collisionless e then (BULLET_COLLISION_GROUP_COLLISIONLESS env, 0)
      else
        let group = (if dynamic e then BULLET_COLLISION_GROUP_DYNAMIC env
                     else if isMoving e \<or> hasActions e then BULLET_COLLISION_GROUP_KINEMATIC env
                     else BULLET_COLLISION_GROUP_STATIC env);
            userMask0 = collisionMask e;
            simulatorID = ownerID (simulationOwner e);
            userMask =
              (if (userMask0 AND USER_COLLISION_GROUP_MY_AVATAR env \<noteq> 0)
                    \<noteq> (userMask0 AND USER_COLLISION_GROUP_OTHER_AVATAR env \<noteq> 0)
               then (if simulatorID \<noteq> 0 \<and> simulatorID \<noteq> 0 \<and> simulatorID \<noteq> sessionUUID env
                     then userMask0 XOR (USER_COLLISION_MASK_AVATARS env OR NOT userMask0)
                     else userMask0)
               else userMask0)
        in (group, getDefaultCollisionMask env group AND ucast userMask))"

section \<open>A sample environment and sample records\<close>

text \<open>
  Concrete data for the closed instances of the theorems below: an environment with
  byte lengths, versions, limits and collision groups, a toy serialisation of an action
  (one byte of type, one byte of id, then the arguments), and a record at rest.
\<close>

definition sampleByteLength :: "wire \<Rightarrow> nat" where
  "sampleByteLength w =
     (case w of
        WUuid u \<Rightarrow> 16 | WCount n \<Rightarrow> 1 | WU64 v \<Rightarrow> 8 | WFlags f \<Rightarrow> 2
      | WProp v \<Rightarrow>
          (case v of
             VOwner x \<Rightarrow> 19 | VVec3 x \<Rightarrow> 12 | VQuat x \<Rightarrow> 8 | VFloat x \<Rightarrow> 4
           | VString x \<Rightarrow> 2 + length x | VU64 x \<Rightarrow> 8 | VBool x \<Rightarrow> 1 | VU8 x \<Rightarrow> 1
           | VU16 x \<Rightarrow> 2 | VUuid x \<Rightarrow> 18 | VBytes x \<Rightarrow> 2 + dataStreamSize x
           | VCube x \<Rightarrow> 16))"

definition sampleSerialize :: "EntityAction \<Rightarrow> QByteArray" where
  "sampleSerialize a = of_nat (actionType a) # ucast (actionID a) # actionArguments a"

definition sampleTypeAndID :: "QByteArray \<Rightarrow> nat \<times> QUuid" where
  "sampleTypeAndID b = (case b of t # i # args \<Rightarrow> (unat t, ucast i) | _ \<Rightarrow> (0, 0))"

definition sampleDeserialize :: "EntityAction \<Rightarrow> QByteArray \<Rightarrow> EntityAction" where
  "sampleDeserialize a b = a\<lparr>actionArguments := drop 2 b\<rparr>"

definition sampleFactory :: "QByteArray \<Rightarrow> EntityAction option" where
  "sampleFactory b =
     (case b of
        t # i # args \<Rightarrow>
          Some \<lparr>actionID = ucast i, actionType = unat t, actionArguments = args,
                locallyAddedButNotYetReceived = False, suppressesLocationEdits = False,
                hasOwnerEntity = True\<rparr>
      | _ \<Rightarrow> None)"

definition sampleEnv :: Env where
  "sampleEnv =
     \<lparr>usecTimestampNow = 1000100, sessionUUID = 7, byteLength = sampleByteLength,
      VERSION_ENTITIES_SUPPORT_SPLIT_MTU = 3, VERSION_ENTITIES_HAS_LAST_SIMULATED_TIME = 16,
      VERSION_ENTITIES_HAS_MARKETPLACE_ID = 18,
      VERSION_ENTITIES_HAS_MARKETPLACE_ID_DAMAGED = 17, UNKNOWN_CREATED_TIME = 0,
      ENTITY_ITEM_MIN_DENSITY = 100, ENTITY_ITEM_MAX_DENSITY = 10000,
      ENTITY_ITEM_MIN_RESTITUTION = 0, ENTITY_ITEM_MAX_RESTITUTION = 0.99,
      ENTITY_ITEM_MIN_FRICTION = 0, ENTITY_ITEM_MAX_FRICTION = 0.99,
      ENTITY_COLLISION_MASK_DEFAULT = 31, USER_COLLISION_GROUP_MY_AVATAR = 8,
      USER_COLLISION_GROUP_OTHER_AVATAR = 16, USER_COLLISION_MASK_AVATARS = 24,
      BULLET_COLLISION_GROUP_COLLISIONLESS = 16384, BULLET_COLLISION_GROUP_DYNAMIC = 2,
      BULLET_COLLISION_GROUP_KINEMATIC = 4, BULLET_COLLISION_GROUP_STATIC = 1,
      getDefaultCollisionMask = (\<lambda>g. if g = 16384 then 0 else 16383),
      PHYSICS_ENGINE_FIXED_SUBSTEP = 1 / 60,
      computeBulletRotationStep = (\<lambda>w dt. (1, 0, 0, 0)),
      serialize = sampleSerialize, streamTypeAndID = sampleTypeAndID,
      deserialize = sampleDeserialize, factoryBA = sampleFactory\<rparr>"

definition sampleArgs :: ReadBitstreamToTreeParams where
  "sampleArgs =
     \<lparr>bitstreamVersion = 18, argsSourceUUID = 9, sourceNodeClockSkew = None,
      entitiesPerPacket = 0\<rparr>"

definition sampleEntity :: EntityItem where
  "sampleEntity =
     \<lparr>entityItemID = 1, entityType = 2, sourceUUID = 0, lastSimulated = 100,
      lastUpdated = 100, lastEdited = 100, lastEditedFromRemote = 0,
      lastEditedFromRemoteInRemoteTime = 0, created = 50,
      simulationOwner = \<lparr>ownerID = 0, ownerPriority = 0\<rparr>,
      localPosition = (0, 0, 0), localOrientation = (1, 0, 0, 0), velocity = (0, 0, 0),
      angularVelocity = (0, 0, 0), acceleration = (0, 0, 0), dimensions = (1, 1, 1),
      density = 1000, gravity = (0, 0, 0), damping = 0, restitution = 0.5, friction = 0.5,
      lifetime = -1, script = [], scriptTimestamp = 0, registrationPoint = (0.5, 0.5, 0.5),
      angularDamping = 0, visible = True, collisionless = False, collisionMask = 31,
      dynamic = False, locked = False, userData = [], marketplaceID = [], name = [],
      collisionSoundURL = [], href = [], description = [], parentID = 0,
      parentJointIndex = 0, queryAACube = \<lparr>cubeCorner = (0, 0, 0), cubeScale = 1\<rparr>,
      dirtyFlags = {}, element = Some \<lparr>deletedEntities = []\<rparr>, objectActions = [],
      previouslyDeletedActions = Map.empty, actionsToRemove = [], allActionsDataCache = [],
      actionDataDirty = False, actionDataNeedsTransmit = False, glowLevel = 0,
      localRenderAlpha = 1\<rparr>"

definition sampleAction :: "QUuid \<Rightarrow> EntityAction" where
  "sampleAction i =
     \<lparr>actionID = i, actionType = 1, actionArguments = [], locallyAddedButNotYetReceived = False,
      suppressesLocationEdits = False, hasOwnerEntity = True\<rparr>"

definition heldEntity :: EntityItem where
  "heldEntity =
     sampleEntity\<lparr>velocity := (1, 0, 0), angularVelocity := (1, 0, 0),
       objectActions := [(3, (sampleAction 3)\<lparr>suppressesLocationEdits := True\<rparr>)]\<rparr>"

definition movingEntity :: EntityItem where
  "movingEntity = sampleEntity\<lparr>velocity := (1, 0, 0), damping := 1 / 2\<rparr>"

definition fullyDampedEntity :: EntityItem where
  "fullyDampedEntity = sampleEntity\<lparr>velocity := (1, 0, 0), damping := 1\<rparr>"

definition foreignOwnedEntity :: EntityItem where
  "foreignOwnedEntity =
     sampleEntity\<lparr>collisionMask := 8, simulationOwner := \<lparr>ownerID = 5, ownerPriority = 1\<rparr>\<rparr>"

definition bigAction :: EntityAction where
  "bigAction = (sampleAction 12)\<lparr>actionArguments := replicate 800 0\<rparr>"

text \<open>
  The id that \<^verbatim>\<open>deserializeActionsInternal\<close> reads from a serialised action, the entries of
  the incoming blob whose id has no tombstone when the pass starts, and the invariant of
  the loop over them: one entry per id, and the flag \<^verbatim>\<open>locallyAddedButNotYetReceived\<close>
  clear on every entry whose id is in \<^verbatim>\<open>updated\<close>.
\<close>

definition serializedActionID :: "Env \<Rightarrow> QByteArray \<Rightarrow> QUuid" where
  "serializedActionID env serializedAction = snd (streamTypeAndID env serializedAction)"

definition notTombstoned :: "Env \<Rightarrow> EntityItem \<Rightarrow> QByteArray list" where
  "notTombstoned env e =
     filter (\<lambda>sa. serializedActionID env sa \<notin> dom (previouslyDeletedActions e))
       (allActionsDataCache e)"

definition received :: "QUuid set \<times> EntityItem \<Rightarrow> bool" where
  "received st =
     (distinct (map fst (objectActions (snd st)))
      \<and> (\<forall>(k, a) \<in> set (objectActions (snd st)).
            k \<in> fst st \<longrightarrow> \<not> locallyAddedButNotYetReceived a))"

text \<open>
  What a pass makes of one id, in the words of the specification: the incoming entries
  that mention the id are taken in their order; each updates the existing action or,
  when there is none, constructs one, and marks it as received.
\<close>

fun reconciledAction :: "Env \<Rightarrow> EntityAction option \<Rightarrow> QByteArray list \<Rightarrow> EntityAction option" where
  "reconciledAction env current [] = current"
| "reconciledAction env None (sa # mentions) =
     reconciledAction env
       (map_option (\<lambda>a. a\<lparr>locallyAddedButNotYetReceived := False\<rparr>) (factoryBA env sa)) mentions"
| "reconciledAction env (Some a) (sa # mentions) =
     reconciledAction env
       (Some ((deserialize env a sa)\<lparr>locallyAddedButNotYetReceived := False\<rparr>)) mentions"

text \<open>
  The sample sequence on the ledger: two actions with ids 10 and 11 are added, 10 is
  removed at time 300, and four blobs arrive, at 400 microseconds, at one second, at
  thirty seconds and at thirty-one seconds; the last three mention action 10 again.
\<close>

definition envAt :: "quint64 \<Rightarrow> Env" where
  "envAt t = sampleEnv\<lparr>usecTimestampNow := t\<rparr>"

definition ledger1 :: EntityItem where
  "ledger1 = snd (addAction (envAt 100) (sampleAction 10) sampleEntity)"
definition ledger2 :: EntityItem where
  "ledger2 = snd (addAction (envAt 200) (sampleAction 11) ledger1)"
definition ledger3 :: EntityItem where
  "ledger3 = snd (removeAction (envAt 300) 10 ledger2)"
definition ledger4 :: EntityItem where
  "ledger4 = setActionDataInternal (envAt 400) [[1, 11, 5]] ledger3"
definition ledger5 :: EntityItem where
  "ledger5 = setActionDataInternal (envAt 1000000) [[1, 10], [1, 11, 6]] ledger4"
definition ledger6 :: EntityItem where
  "ledger6 = setActionDataInternal (envAt 30000000) [[1, 10], [1, 11, 7]] ledger5"
definition ledger7 :: EntityItem where
  "ledger7 = setActionDataInternal (envAt 31000000) [[1, 10], [1, 11, 8]] ledger6"

definition pendingLedger :: EntityItem where
  "pendingLedger = ledger6\<lparr>allActionsDataCache := [[1, 10], [1, 11, 8]]\<rparr>"

text \<open>
  What the operations on the action ledger may write: the six members of the ledger and
  the dirty flags. \<^verbatim>\<open>withLedgerOf e e'\<close> is \<^verbatim>\<open>e\<close> with those members taken from \<^verbatim>\<open>e'\<close>.
\<close>

definition withLedgerOf :: "EntityItem \<Rightarrow> EntityItem \<Rightarrow> EntityItem" where
  "withLedgerOf e e' =
     e\<lparr>objectActions := objectActions e',
       previouslyDeletedActions := previouslyDeletedActions e',
       actionsToRemove := actionsToRemove e',
       allActionsDataCache := allActionsDataCache e',
       actionDataDirty := actionDataDirty e',
       actionDataNeedsTransmit := actionDataNeedsTransmit e',
       dirtyFlags := dirtyFlags e'\<rparr>"

definition ledgerOnly :: "EntityItem \<Rightarrow> EntityItem \<Rightarrow> bool" where
  "ledgerOnly e e' = (e' = withLedgerOf e e' \<and> dirtyFlags e \<subseteq> dirtyFlags e'
      \<and> dirtyFlags e' \<subseteq> dirtyFlags e \<union> {DIRTY_PHYSICS_ACTIVATION})"

text \<open>
  The members that no property setter writes, and, for every property, the member its
  setter writes (beside the dirty flags): \<^verbatim>\<open>footprint P e e'\<close> is \<^verbatim>\<open>e\<close> with that member
  taken from \<^verbatim>\<open>e'\<close>.
\<close>

definition bookkeeping ::
  "EntityItem \<Rightarrow> QUuid \<times> 32 word \<times> QUuid \<times> quint64 \<times> quint64 \<times> quint64 \<times> quint64
     \<times> quint64 \<times> EntityTree option" where
  "bookkeeping e =
     (entityItemID e, entityType e, sourceUUID e, lastUpdated e, lastEdited e,
      lastEditedFromRemote e, lastEditedFromRemoteInRemoteTime e, created e, element e)"

definition footprint :: "EntityPropertyList \<Rightarrow> EntityItem \<Rightarrow> EntityItem \<Rightarrow> EntityItem" where
  "footprint P e e' =
     (case P of
        PROP_SIMULATION_OWNER \<Rightarrow> e\<lparr>simulationOwner := simulationOwner e', dirtyFlags := dirtyFlags e'\<rparr>
      | PROP_POSITION \<Rightarrow> e\<lparr>localPosition := localPosition e', dirtyFlags := dirtyFlags e'\<rparr>
      | PROP_ROTATION \<Rightarrow> e\<lparr>localOrientation := localOrientation e', dirtyFlags := dirtyFlags e'\<rparr>
      | PROP_VELOCITY \<Rightarrow> e\<lparr>velocity := velocity e', dirtyFlags := dirtyFlags e'\<rparr>
      | PROP_ANGULAR_VELOCITY \<Rightarrow> e\<lparr>angularVelocity := angularVelocity e', dirtyFlags := dirtyFlags e'\<rparr>
      | PROP_ACCELERATION \<Rightarrow> e\<lparr>acceleration := acceleration e', dirtyFlags := dirtyFlags e'\<rparr>
      | PROP_DIMENSIONS \<Rightarrow> e\<lparr>dimensions := dimensions e', dirtyFlags := dirtyFlags e'\<rparr>
      | PROP_DENSITY \<Rightarrow> e\<lparr>density := density e', dirtyFlags := dirtyFlags e'\<rparr>
      | PROP_GRAVITY \<Rightarrow> e\<lparr>gravity := gravity e', dirtyFlags := dirtyFlags e'\<rparr>
      | PROP_DAMPING \<Rightarrow> e\<lparr>damping := damping e', dirtyFlags := dirtyFlags e'\<rparr>
      | PROP_RESTITUTION \<Rightarrow> e\<lparr>restitution := restitution e', dirtyFlags := dirtyFlags e'\<rparr>
      | PROP_FRICTION \<Rightarrow> e\<lparr>friction := friction e', dirtyFlags := dirtyFlags e'\<rparr>
      | PROP_LIFETIME \<Rightarrow> e\<lparr>lifetime := lifetime e', dirtyFlags := dirtyFlags e'\<rparr>
      | PROP_SCRIPT \<Rightarrow> e\<lparr>script := script e', dirtyFlags := dirtyFlags e'\<rparr>
      | PROP_SCRIPT_TIMESTAMP \<Rightarrow> e\<lparr>scriptTimestamp := scriptTimestamp e', dirtyFlags := dirtyFlags e'\<rparr>
      | PROP_COLLISION_SOUND_URL \<Rightarrow> e\<lparr>collisionSoundURL := collisionSoundURL e', dirtyFlags := dirtyFlags e'\<rparr>
      | PROP_REGISTRATION_POINT \<Rightarrow> e\<lparr>registrationPoint := registrationPoint e', dirtyFlags := dirtyFlags e'\<rparr>
      | PROP_ANGULAR_DAMPING \<Rightarrow> e\<lparr>angularDamping := angularDamping e', dirtyFlags := dirtyFlags e'\<rparr>
      | PROP_VISIBLE \<Rightarrow> e\<lparr>visible := visible e', dirtyFlags := dirtyFlags e'\<rparr>
      | PROP_COLLISIONLESS \<Rightarrow> e\<lparr>collisionless := collisionless e', dirtyFlags := dirtyFlags e'\<rparr>
      | PROP_COLLISION_MASK \<Rightarrow> e\<lparr>collisionMask := collisionMask e', dirtyFlags := dirtyFlags e'\<rparr>
      | PROP_DYNAMIC \<Rightarrow> e\<lparr>dynamic := dynamic e', dirtyFlags := dirtyFlags e'\<rparr>
      | PROP_LOCKED \<Rightarrow> e\<lparr>locked := locked e', dirtyFlags := dirtyFlags e'\<rparr>
      | PROP_USER_DATA \<Rightarrow> e\<lparr>userData := userData e', dirtyFlags := dirtyFlags e'\<rparr>
      | PROP_MARKETPLACE_ID \<Rightarrow> e\<lparr>marketplaceID := marketplaceID e', dirtyFlags := dirtyFlags e'\<rparr>
      | PROP_NAME \<Rightarrow> e\<lparr>name := name e', dirtyFlags := dirtyFlags e'\<rparr>
      | PROP_HREF \<Rightarrow> e\<lparr>href := href e', dirtyFlags := dirtyFlags e'\<rparr>
      | PROP_DESCRIPTION \<Rightarrow> e\<lparr>description := description e', dirtyFlags := dirtyFlags e'\<rparr>
      | PROP_ACTION_DATA \<Rightarrow> withLedgerOf e e'
      | PROP_PARENT_ID \<Rightarrow> e\<lparr>parentID := parentID e', dirtyFlags := dirtyFlags e'\<rparr>
      | PROP_PARENT_JOINT_INDEX \<Rightarrow> e\<lparr>parentJointIndex := parentJointIndex e', dirtyFlags := dirtyFlags e'\<rparr>
      | PROP_QUERY_AA_CUBE \<Rightarrow> e\<lparr>queryAACube := queryAACube e', dirtyFlags := dirtyFlags e'\<rparr>
      | PROP_CREATED \<Rightarrow> e\<lparr>created := created e', dirtyFlags := dirtyFlags e'\<rparr>
      | PROP_GLOW_LEVEL \<Rightarrow> e\<lparr>glowLevel := glowLevel e', dirtyFlags := dirtyFlags e'\<rparr>
      | PROP_LOCAL_RENDER_ALPHA \<Rightarrow> e\<lparr>localRenderAlpha := localRenderAlpha e', dirtyFlags := dirtyFlags e'\<rparr>
      | PROP_LAST_ITEM \<Rightarrow> e\<lparr>dirtyFlags := dirtyFlags e'\<rparr>)"



text \<open>
  The properties that \<^verbatim>\<open>readEntityDataFromBuffer\<close> reads after the transform group, in their
  order, and the tail of the function: the extrapolation to \<^verbatim>\<open>now\<close> and the update of
  \<^verbatim>\<open>_lastSimulated\<close>.
\<close>

definition laterOrder :: "Env \<Rightarrow> ReadBitstreamToTreeParams \<Rightarrow> EntityPropertyList list" where
  "laterOrder env args =
     readOrderBeforeMarketplace
     @ (if bitstreamVersion args \<ge> VERSION_ENTITIES_HAS_MARKETPLACE_ID env
        then [PROP_MARKETPLACE_ID] else [])
     @ readOrderAfterMarketplace
     @ (if bitstreamVersion args = VERSION_ENTITIES_HAS_MARKETPLACE_ID_DAMAGED env
        then [PROP_MARKETPLACE_ID] else [])"

definition extrapolateAfterRead :: "Env \<Rightarrow> bool \<Rightarrow> quint64 \<Rightarrow> EntityItem \<Rightarrow> EntityItem" where
  "extrapolateAfterRead env overwriteLocalData lastSimulatedFromBufferAdjusted e6 =
     (let now = usecTimestampNow env;
          e7 = (if overwriteLocalData
                     \<and> dirtyFlags e6 \<inter> (DIRTY_TRANSFORM \<union> DIRTY_VELOCITIES) \<noteq> {}
                  then simulateKinematicMotion env
                         (real (unat (now - lastSimulatedFromBufferAdjusted))
                            / real (unat USECS_PER_SECOND)) False e6
                  else e6)
      in if overwriteLocalData \<and> \<not> matchesValidID (sessionUUID env) (simulationOwner e7)
         then e7\<lparr>lastSimulated := now\<rparr> else e7)"



definition freshPacketData :: "wire list" where
  "freshPacketData =
     [WUuid 1, WCount 2, WU64 50, WU64 200, WCount 0, WCount 0, WFlags {PROP_NAME},
      WProp (VString ''box'')]"

definition createdProperties :: EntityItemProperties where
  "createdProperties = \<lparr>changedProperties = [PROP_CREATED \<mapsto> VU64 10], propertiesCreated = 10\<rparr>"

text \<open>
  A record that the local peer simulates, moving at one metre per second, and a packet
  for it that carries a position, a velocity and a gravity.
\<close>

definition ownedEntity :: EntityItem where
  "ownedEntity =
     sampleEntity\<lparr>simulationOwner := \<lparr>ownerID = 7, ownerPriority = 1\<rparr>, velocity := (1, 0, 0)\<rparr>"

definition transformPacketData :: "wire list" where
  "transformPacketData =
     [WUuid 1, WCount 2, WU64 50, WU64 100, WCount 0, WCount 0,
      WFlags {PROP_POSITION, PROP_VELOCITY, PROP_GRAVITY},
      WProp (VVec3 (5, 5, 5)), WProp (VVec3 (2, 0, 0)), WProp (VVec3 (0, -1, 0))]"













section \<open>Vectors and powers\<close>

lemma glm_length_axis: "glm_length (x, 0, 0) = \<bar>x\<bar>"
  by simp

lemma vec3_scale_one: "vec3_scale v 1 = v"
  by (cases v) simp

lemma vec3_add_zero: "vec3_add v (vec3_scale ENTITY_ITEM_ZERO_VEC3 s) = v"
  by (cases v) (simp add: ENTITY_ITEM_ZERO_VEC3_def)

lemma powf_one_base: "powf 1 y = 1"
  by (simp add: powf_def)

section \<open>Velocity thresholds of the mutators\<close>

text \<open>
  Claim C10, amended. \<^verbatim>\<open>updateVelocity(v)\<close> returns at once when an attached action
  suppresses location edits, and does nothing when the stored velocity already equals
  \<open>v\<close>; in both cases the stored velocity stays what it was. Otherwise the stored
  velocity becomes the zero vector when the length of \<open>v\<close> is below 0.001 and \<open>v\<close> when
  it is not, so after a call that changes it the record holds the zero vector or a
  velocity of at least the threshold. \<^verbatim>\<open>updateAngularVelocity\<close> does the same with the
  threshold 0.0002.
\<close>

theorem velocity_snap_to_zero:
  "velocity (updateVelocity v e) =
     (if shouldSuppressLocationEdits e \<or> velocity e = v then velocity e
      else if glm_length v < MIN_LINEAR_SPEED then ENTITY_ITEM_ZERO_VEC3 else v)
   \<and> angularVelocity (updateAngularVelocity w e) =
     (if shouldSuppressLocationEdits e \<or> angularVelocity e = w then angularVelocity e
      else if glm_length w < MIN_ANGULAR_SPEED then ENTITY_ITEM_ZERO_VEC3 else w)
   \<and> (\<not> shouldSuppressLocationEdits e \<and> velocity e \<noteq> v \<longrightarrow>
        velocity (updateVelocity v e) = ENTITY_ITEM_ZERO_VEC3
        \<or> MIN_LINEAR_SPEED \<le> glm_length (velocity (updateVelocity v e)))
   \<and> (\<not> shouldSuppressLocationEdits e \<and> angularVelocity e \<noteq> w \<longrightarrow>
        angularVelocity (updateAngularVelocity w e) = ENTITY_ITEM_ZERO_VEC3
        \<or> MIN_ANGULAR_SPEED \<le> glm_length (angularVelocity (updateAngularVelocity w e)))"
  by (simp add: updateVelocity_def updateAngularVelocity_def Let_def)

text \<open>
  The theorem at the record at rest: a velocity of half a millimetre per second and an
  angular velocity of 0.0001 rad/s are both stored as the zero vector.
\<close>

theorem velocity_snap_to_zero_witness:
  "\<not> shouldSuppressLocationEdits sampleEntity
   \<and> velocity sampleEntity \<noteq> (0.0005, 0, 0)
   \<and> angularVelocity sampleEntity \<noteq> (0.0001, 0, 0)
   \<and> velocity (updateVelocity (0.0005, 0, 0) sampleEntity) = ENTITY_ITEM_ZERO_VEC3
   \<and> angularVelocity (updateAngularVelocity (0.0001, 0, 0) sampleEntity) = ENTITY_ITEM_ZERO_VEC3"
proof -
  have a: "\<not> shouldSuppressLocationEdits sampleEntity"
    by (simp add: shouldSuppressLocationEdits_def sampleEntity_def)
  have b: "velocity sampleEntity \<noteq> (0.0005, 0, 0)"
    "angularVelocity sampleEntity \<noteq> (0.0001, 0, 0)"
    by (simp_all add: sampleEntity_def)
  have c: "glm_length (0.0005, 0, 0) < MIN_LINEAR_SPEED"
    "glm_length (0.0001, 0, 0) < MIN_ANGULAR_SPEED"
    by (simp_all only: glm_length_axis MIN_LINEAR_SPEED_def MIN_ANGULAR_SPEED_def) simp_all
  from velocity_snap_to_zero [of "(0.0005, 0, 0)" sampleEntity "(0.0001, 0, 0)"] a b c
  show ?thesis by presburger
qed

text \<open>
  Claim C10 as stated fails on a record held by an action that suppresses location
  edits: the call with the zero vector, whose length is below both thresholds, leaves
  the stored velocity (1, 0, 0) and the stored angular velocity (1, 0, 0).
\<close>

theorem velocity_snap_counterexample:
  "glm_length (0, 0, 0) < MIN_LINEAR_SPEED
   \<and> velocity (updateVelocity (0, 0, 0) heldEntity) = (1, 0, 0)
   \<and> glm_length (0, 0, 0) < MIN_ANGULAR_SPEED
   \<and> angularVelocity (updateAngularVelocity (0, 0, 0) heldEntity) = (1, 0, 0)"
  by (simp add: updateVelocity_def updateAngularVelocity_def shouldSuppressLocationEdits_def
      heldEntity_def sampleEntity_def sampleAction_def MIN_LINEAR_SPEED_def MIN_ANGULAR_SPEED_def)

section \<open>Extrapolation\<close>

lemma simulateAngular_linear_fields:
  "velocity (simulateAngular env t f e) = velocity e
   \<and> localPosition (simulateAngular env t f e) = localPosition e
   \<and> damping (simulateAngular env t f e) = damping e
   \<and> acceleration (simulateAngular env t f e) = acceleration e
   \<and> dirtyFlags e \<subseteq> dirtyFlags (simulateAngular env t f e)"
  by (auto simp: simulateAngular_def Let_def split: prod.splits)

lemma simulateLinear_result:
  assumes "hasVelocity e" "0 \<le> damping e"
  shows "simulateLinear t f e =
     (let v1 = vec3_scale (velocity e) (powf (1 - damping e) t);
          v2 = vec3_add v1 (vec3_scale (acceleration e) t)
      in if glm_length v2 < EPSILON_LINEAR_VELOCITY_LENGTH
         then (if f \<and> 0 < glm_length v2
               then e\<lparr>velocity := ENTITY_ITEM_ZERO_VEC3,
                      dirtyFlags := dirtyFlags e \<union> {DIRTY_MOTION_TYPE}\<rparr>
               else e\<lparr>velocity := ENTITY_ITEM_ZERO_VEC3\<rparr>)
         else e\<lparr>localPosition := vec3_add (localPosition e) (vec3_scale v1 t), velocity := v2\<rparr>)"
proof -
  have d: "(if damping e > 0 then vec3_scale (velocity e) (powf (1 - damping e) t) else velocity e)
             = vec3_scale (velocity e) (powf (1 - damping e) t)"
    using assms(2) by (cases "damping e = 0") (simp_all add: powf_one_base vec3_scale_one)
  have a: "\<And>v. (if hasAcceleration e then vec3_add v (vec3_scale (acceleration e) t) else v)
             = vec3_add v (vec3_scale (acceleration e) t)"
    by (simp add: hasAcceleration_def vec3_add_zero)
  show ?thesis
    using assms(1) unfolding simulateLinear_def Let_def d a by simp
qed

lemma simulateAngular_dirtyFlags:
  "dirtyFlags (simulateAngular env t f e)
     = dirtyFlags e
       \<union> (if f \<and> hasAngularVelocity e
              \<and> 0 < glm_length (if angularDamping e > 0
                                  then vec3_scale (angularVelocity e) (powf (1 - angularDamping e) t)
                                  else angularVelocity e)
              \<and> glm_length (if angularDamping e > 0
                              then vec3_scale (angularVelocity e) (powf (1 - angularDamping e) t)
                              else angularVelocity e) < EPSILON_ANGULAR_VELOCITY_LENGTH
           then {DIRTY_MOTION_TYPE} else {})"
  by (simp add: simulateAngular_def Let_def split: prod.splits)

text \<open>
  Claim C4, amended. For a record with a velocity that is not zero, no attached action
  and a damping in [0, 1], \<^verbatim>\<open>simulateKinematicMotion\<close> clamps the elapsed time to [0, 1],
  multiplies the velocity by (1 - damping) to the power of the elapsed time, adds the
  damped velocity times the elapsed time to the position, and adds the acceleration
  times the elapsed time to the velocity. If the resulting speed is below 0.001 the
  velocity is set to zero and the position is left as it was; otherwise the new position
  and the new velocity are both stored. The dirty flags after the call are those before
  it, with the motion-type bit added exactly when flags are requested and either the
  resulting speed is below 0.001 and not zero, or the damped angular speed of a rotating
  record is below its threshold and not zero.
\<close>

theorem extrapolation_order:
  assumes "\<not> hasActions e" and "hasVelocity e" and "0 \<le> damping e" and "damping e \<le> 1"
  shows
    "(let te = glm_clamp t 0 1;
          v1 = vec3_scale (velocity e) (powf (1 - damping e) te);
          p1 = vec3_add (localPosition e) (vec3_scale v1 te);
          v2 = vec3_add v1 (vec3_scale (acceleration e) te);
          w1 = (if angularDamping e > 0
                then vec3_scale (angularVelocity e) (powf (1 - angularDamping e) te)
                else angularVelocity e);
          e' = simulateKinematicMotion env t setFlags e
      in (glm_length v2 < EPSILON_LINEAR_VELOCITY_LENGTH \<longrightarrow>
            velocity e' = ENTITY_ITEM_ZERO_VEC3 \<and> localPosition e' = localPosition e)
         \<and> (\<not> glm_length v2 < EPSILON_LINEAR_VELOCITY_LENGTH \<longrightarrow>
               localPosition e' = p1 \<and> velocity e' = v2)
         \<and> dirtyFlags e'
             = dirtyFlags e
               \<union> (if setFlags
                      \<and> (0 < glm_length v2 \<and> glm_length v2 < EPSILON_LINEAR_VELOCITY_LENGTH
                          \<or> hasAngularVelocity e \<and> 0 < glm_length w1
                            \<and> glm_length w1 < EPSILON_ANGULAR_VELOCITY_LENGTH)
                   then {DIRTY_MOTION_TYPE} else {}))"
proof -
  let ?te = "glm_clamp t 0 1"
  let ?a = "simulateAngular env ?te setFlags e"
  let ?v1 = "vec3_scale (velocity e) (powf (1 - damping e) ?te)"
  let ?v2 = "vec3_add ?v1 (vec3_scale (acceleration e) ?te)"
  let ?w1 = "if angularDamping e > 0
             then vec3_scale (angularVelocity e) (powf (1 - angularDamping e) ?te)
             else angularVelocity e"
  let ?e' = "simulateKinematicMotion env t setFlags e"
  have f: "velocity ?a = velocity e" "localPosition ?a = localPosition e"
    "damping ?a = damping e" "acceleration ?a = acceleration e"
    using simulateAngular_linear_fields [of env ?te setFlags e] by simp_all
  have hv: "hasVelocity ?a" "0 \<le> damping ?a"
    using assms f by (simp_all add: hasVelocity_def)
  have k: "?e' =
     (if glm_length ?v2 < EPSILON_LINEAR_VELOCITY_LENGTH
      then (if setFlags \<and> 0 < glm_length ?v2
            then ?a\<lparr>velocity := ENTITY_ITEM_ZERO_VEC3,
                    dirtyFlags := dirtyFlags ?a \<union> {DIRTY_MOTION_TYPE}\<rparr>
            else ?a\<lparr>velocity := ENTITY_ITEM_ZERO_VEC3\<rparr>)
      else ?a\<lparr>localPosition := vec3_add (localPosition e) (vec3_scale ?v1 ?te), velocity := ?v2\<rparr>)"
  proof -
    have "?e' = simulateLinear ?te setFlags ?a"
      using assms(1) by (simp add: simulateKinematicMotion_def Let_def)
    then show ?thesis
      unfolding simulateLinear_result [OF hv, unfolded Let_def] f .
  qed
  have fb: "\<And>b. localPosition (simulateAngular env ?te b e) = localPosition e"
    using simulateAngular_linear_fields [of env ?te _ e] by simp
  have 1: "glm_length ?v2 < EPSILON_LINEAR_VELOCITY_LENGTH \<longrightarrow>
            velocity ?e' = ENTITY_ITEM_ZERO_VEC3 \<and> localPosition ?e' = localPosition e"
    unfolding k by (simp add: fb)
  have 2: "\<not> glm_length ?v2 < EPSILON_LINEAR_VELOCITY_LENGTH \<longrightarrow>
            localPosition ?e' = vec3_add (localPosition e) (vec3_scale ?v1 ?te) \<and> velocity ?e' = ?v2"
    unfolding k by simp
  have dg: "\<And>b. dirtyFlags (simulateAngular env ?te b e)
     = dirtyFlags e
       \<union> (if b \<and> hasAngularVelocity e \<and> 0 < glm_length ?w1
              \<and> glm_length ?w1 < EPSILON_ANGULAR_VELOCITY_LENGTH
           then {DIRTY_MOTION_TYPE} else {})"
    by (rule simulateAngular_dirtyFlags)
  have 4: "dirtyFlags ?e'
             = dirtyFlags e
               \<union> (if setFlags
                      \<and> (0 < glm_length ?v2 \<and> glm_length ?v2 < EPSILON_LINEAR_VELOCITY_LENGTH
                          \<or> hasAngularVelocity e \<and> 0 < glm_length ?w1
                            \<and> glm_length ?w1 < EPSILON_ANGULAR_VELOCITY_LENGTH)
                   then {DIRTY_MOTION_TYPE} else {})"
    unfolding k by (auto simp: dg)
  from 1 2 4 show ?thesis
    unfolding Let_def by (intro conjI)
qed

lemma movingEntity_facts:
  "\<not> hasActions movingEntity" "hasVelocity movingEntity" "damping movingEntity = 1 / 2"
  "velocity movingEntity = (1, 0, 0)" "acceleration movingEntity = (0, 0, 0)"
  "localPosition movingEntity = (0, 0, 0)"
  by (simp_all add: movingEntity_def sampleEntity_def hasActions_def hasVelocity_def
      ENTITY_ITEM_ZERO_VEC3_def)

text \<open>
  The theorem at velocity (1, 0, 0), damping 0.5, no acceleration and one second: the
  velocity becomes (0.5, 0, 0), the position moves by (0.5, 0, 0) and no dirty flag is
  added.
\<close>

theorem extrapolation_order_witness:
  "\<not> hasActions movingEntity \<and> hasVelocity movingEntity
   \<and> 0 \<le> damping movingEntity \<and> damping movingEntity \<le> 1
   \<and> velocity (simulateKinematicMotion sampleEnv 1 True movingEntity) = (1 / 2, 0, 0)
   \<and> localPosition (simulateKinematicMotion sampleEnv 1 True movingEntity)
       = vec3_add (localPosition movingEntity) (1 / 2, 0, 0)
   \<and> dirtyFlags (simulateKinematicMotion sampleEnv 1 True movingEntity) = dirtyFlags movingEntity"
proof -
  have h: "\<not> hasActions movingEntity" "hasVelocity movingEntity"
    "0 \<le> damping movingEntity" "damping movingEntity \<le> 1"
    by (simp_all add: movingEntity_facts)
  have p: "powf (1 / 2) 1 = 1 / 2"
    by (simp add: powf_def)
  have a: "\<not> hasAngularVelocity movingEntity"
    by (simp add: movingEntity_def sampleEntity_def hasAngularVelocity_def ENTITY_ITEM_ZERO_VEC3_def)
  from extrapolation_order [OF h, of 1 sampleEnv True] h a
  show ?thesis
    by (simp add: Let_def movingEntity_facts glm_clamp_def p EPSILON_LINEAR_VELOCITY_LENGTH_def)
qed

text \<open>
  Claim C4 as stated fails at velocity (1, 0, 0) with damping 1: after one second the
  speed is exactly zero, which is below the threshold, the velocity is zeroed, flags are
  requested, and the motion-type dirty bit is not set.
\<close>

theorem extrapolation_order_counterexample:
  "glm_length (vec3_scale (velocity fullyDampedEntity) (powf (1 - damping fullyDampedEntity) 1))
     < EPSILON_LINEAR_VELOCITY_LENGTH
   \<and> velocity (simulateKinematicMotion sampleEnv 1 True fullyDampedEntity) = ENTITY_ITEM_ZERO_VEC3
   \<and> DIRTY_MOTION_TYPE \<notin> dirtyFlags (simulateKinematicMotion sampleEnv 1 True fullyDampedEntity)"
  by (simp add: simulateKinematicMotion_def simulateAngular_def simulateLinear_def
      fullyDampedEntity_def sampleEntity_def hasActions_def hasVelocity_def
      hasAngularVelocity_def hasAcceleration_def ENTITY_ITEM_ZERO_VEC3_def glm_clamp_def
      powf_def Let_def EPSILON_LINEAR_VELOCITY_LENGTH_def)

section \<open>Buffers shorter than the header\<close>

text \<open>
  Claim C5, amended. For a buffer of fewer than 27 bytes \<^verbatim>\<open>readEntityDataFromBuffer\<close>
  returns 0. Unless the bitstream version is too old, the source id of the record has by
  then been set to the source of the packet; every other field of the record is as it
  was.
\<close>

theorem truncated_decode:
  assumes "bytesLeftToRead < MINIMUM_HEADER_BYTES"
  shows "\<exists>args'. readEntityDataFromBuffer env data bytesLeftToRead args e
           = Some (0, args',
               if bitstreamVersion args < VERSION_ENTITIES_SUPPORT_SPLIT_MTU env then e
               else e\<lparr>sourceUUID := argsSourceUUID args\<rparr>)"
  using assms by (simp add: readEntityDataFromBuffer_def Let_def)

text \<open>The theorem at the empty buffer.\<close>

theorem truncated_decode_witness:
  "(0::int) < MINIMUM_HEADER_BYTES
   \<and> (\<exists>args'. readEntityDataFromBuffer sampleEnv [] 0 sampleArgs sampleEntity
         = Some (0, args', sampleEntity\<lparr>sourceUUID := 9\<rparr>))"
proof -
  have h: "(0::int) < MINIMUM_HEADER_BYTES"
    by (simp add: MINIMUM_HEADER_BYTES_def)
  from truncated_decode [OF h, of sampleEnv "[]" sampleArgs sampleEntity] h
  show ?thesis
    by (simp add: sampleEnv_def sampleArgs_def)
qed

text \<open>
  Claim C5 as stated fails at the empty buffer: the call returns 0 and the record's
  source id has changed from 0 to 9.
\<close>

theorem truncated_decode_counterexample:
  "readEntityDataFromBuffer sampleEnv [] 0 sampleArgs sampleEntity
     = Some (0, sampleArgs\<lparr>entitiesPerPacket := 1\<rparr>, sampleEntity\<lparr>sourceUUID := 9\<rparr>)
   \<and> sourceUUID (sampleEntity\<lparr>sourceUUID := 9\<rparr>) \<noteq> sourceUUID sampleEntity"
  by (simp add: readEntityDataFromBuffer_def sampleEnv_def sampleArgs_def sampleEntity_def
      MINIMUM_HEADER_BYTES_def)

section \<open>The collision mask\<close>

lemma mask_bits: "((x::8 word) XOR (a OR NOT x)) OR a = - 1"
  by (rule bit_eqI) (auto simp: bit_simps)

text \<open>
  Claim C9. When exactly one of the two avatar bits of the user mask is set and the
  simulation owner is not null and is not the local session, the final mask is the
  default mask of the group AND the user mask XOR (avatar mask OR NOT user mask), the
  operation being done on 8 bits and the result widened to 16. Every bit of that value
  outside the avatar mask is set, whatever the user mask. For a collisionless record the
  function returns the mask 0 without reading the user mask, which is the formula's
  value when the default mask of the collisionless group is 0.
\<close>

theorem collision_mask_literal_formula:
  assumes asym: "(collisionMask e AND USER_COLLISION_GROUP_MY_AVATAR env \<noteq> 0)
                   \<noteq> (collisionMask e AND USER_COLLISION_GROUP_OTHER_AVATAR env \<noteq> 0)"
    and owner: "ownerID (simulationOwner e) \<noteq> 0"
    and other: "ownerID (simulationOwner e) \<noteq> sessionUUID env"
    and less: "collisionless e \<longrightarrow>
                 getDefaultCollisionMask env (BULLET_COLLISION_GROUP_COLLISIONLESS env) = 0"
  shows "snd (computeCollisionGroupAndFinalMask env e)
           = getDefaultCollisionMask env (fst (computeCollisionGroupAndFinalMask env e))
               AND ucast (collisionMask e
                            XOR (USER_COLLISION_MASK_AVATARS env OR NOT (collisionMask e)))
         \<and> (collisionMask e XOR (USER_COLLISION_MASK_AVATARS env OR NOT (collisionMask e)))
               OR USER_COLLISION_MASK_AVATARS env = - 1"
  using assms by (simp add: computeCollisionGroupAndFinalMask_def Let_def mask_bits)

text \<open>
  The theorem at a record at rest owned by another node, with only the my-avatar bit in
  its user mask: the group is the static group and the mask is 247, all bits of the low
  byte but the my-avatar bit.
\<close>

theorem collision_mask_literal_formula_witness:
  "(collisionMask foreignOwnedEntity AND USER_COLLISION_GROUP_MY_AVATAR sampleEnv \<noteq> 0)
     \<noteq> (collisionMask foreignOwnedEntity AND USER_COLLISION_GROUP_OTHER_AVATAR sampleEnv \<noteq> 0)
   \<and> ownerID (simulationOwner foreignOwnedEntity) \<noteq> 0
   \<and> ownerID (simulationOwner foreignOwnedEntity) \<noteq> sessionUUID sampleEnv
   \<and> \<not> collisionless foreignOwnedEntity
   \<and> getDefaultCollisionMask sampleEnv (BULLET_COLLISION_GROUP_COLLISIONLESS sampleEnv) = 0
   \<and> computeCollisionGroupAndFinalMask sampleEnv foreignOwnedEntity = (1, 247)"
proof -
  have h: "(collisionMask foreignOwnedEntity AND USER_COLLISION_GROUP_MY_AVATAR sampleEnv \<noteq> 0)
     \<noteq> (collisionMask foreignOwnedEntity AND USER_COLLISION_GROUP_OTHER_AVATAR sampleEnv \<noteq> 0)"
    "ownerID (simulationOwner foreignOwnedEntity) \<noteq> 0"
    "ownerID (simulationOwner foreignOwnedEntity) \<noteq> sessionUUID sampleEnv"
    "collisionless foreignOwnedEntity \<longrightarrow>
        getDefaultCollisionMask sampleEnv (BULLET_COLLISION_GROUP_COLLISIONLESS sampleEnv) = 0"
    by (simp_all add: foreignOwnedEntity_def sampleEntity_def sampleEnv_def)
  have g: "fst (computeCollisionGroupAndFinalMask sampleEnv foreignOwnedEntity) = 1"
    by (simp add: computeCollisionGroupAndFinalMask_def foreignOwnedEntity_def sampleEntity_def
        sampleEnv_def Let_def isMoving_def hasVelocity_def hasAngularVelocity_def hasActions_def
        ENTITY_ITEM_ZERO_VEC3_def)
  have m: "snd (computeCollisionGroupAndFinalMask sampleEnv foreignOwnedEntity) = 247"
    using collision_mask_literal_formula [OF h] g
    by (simp add: foreignOwnedEntity_def sampleEntity_def sampleEnv_def)
  have n: "\<not> collisionless foreignOwnedEntity"
    "getDefaultCollisionMask sampleEnv (BULLET_COLLISION_GROUP_COLLISIONLESS sampleEnv) = 0"
    by (simp_all add: foreignOwnedEntity_def sampleEntity_def sampleEnv_def)
  from h(1-3) n g m show ?thesis
    by (simp add: prod_eq_iff)
qed

section \<open>Adding an action that does not fit\<close>

lemma update_new_key: "k \<notin> fst ` set al \<Longrightarrow> AList.delete k (AList.update k v al) = al"
  by (simp add: delete_update_same)

lemma serializeActions_overflow:
  "objectActions e \<noteq> [] \<Longrightarrow>
   maxActionsDataSize \<le> dataStreamSize (map (\<lambda>(k, a). serialize env a) (objectActions e)) \<Longrightarrow>
   \<not> fst (serializeActions env e)"
  by (simp add: serializeActions_def Let_def)

lemma serializeActions_cong:
  "objectActions e = objectActions e' \<Longrightarrow> serializeActions env e = serializeActions env e'"
  by (simp add: serializeActions_def)

lemma addAction_overflow:
  assumes new: "actionID action \<notin> fst ` set (objectActions (checkWaitingToRemove env e))"
    and over: "maxActionsDataSize
                 \<le> dataStreamSize
                      (map (\<lambda>(k, a). serialize env a)
                         (AList.update (actionID action) action
                            (objectActions (checkWaitingToRemove env e))))"
  shows "addAction env action e =
           (False,
            (checkWaitingToRemove env e)
              \<lparr>previouslyDeletedActions :=
                 (previouslyDeletedActions (checkWaitingToRemove env e))
                   (actionID action \<mapsto> usecTimestampNow env),
               allActionsDataCache := snd (serializeActions env (checkWaitingToRemove env e)),
               dirtyFlags := dirtyFlags (checkWaitingToRemove env e) \<union> {DIRTY_PHYSICS_ACTIVATION},
               actionDataNeedsTransmit := True\<rparr>)"
proof -
  let ?e0 = "checkWaitingToRemove env e"
  let ?e1 = "?e0\<lparr>objectActions := AList.update (actionID action) action (objectActions ?e0)\<rparr>"
  have f: "\<not> fst (serializeActions env ?e1)"
    using over by (intro serializeActions_overflow) simp_all
  have a: "addActionInternal env action ?e0 = (False, ?e1)"
    using f by (cases "serializeActions env ?e1") (simp add: addActionInternal_def Let_def)
  have d: "AList.delete (actionID action) (AList.update (actionID action) action (objectActions ?e0))
             = objectActions ?e0"
    using new by (rule update_new_key)
  have s: "\<And>X. serializeActions env (?e0\<lparr>previouslyDeletedActions := X\<rparr>)
             = serializeActions env ?e0"
    by (rule serializeActions_cong) simp
  have r: "snd (removeActionInternal env (actionID action) ?e1)
             = ?e0\<lparr>previouslyDeletedActions :=
                      (previouslyDeletedActions ?e0)(actionID action \<mapsto> usecTimestampNow env),
                    allActionsDataCache := snd (serializeActions env ?e0),
                    dirtyFlags := dirtyFlags ?e0 \<union> {DIRTY_PHYSICS_ACTIVATION},
                    actionDataNeedsTransmit := True\<rparr>"
    by (cases "serializeActions env ?e0")
       (simp add: removeActionInternal_def Let_def update_conv' d s)
  show ?thesis
    by (simp add: addAction_def Let_def a r)
qed

text \<open>
  Claim C6, amended. \<^verbatim>\<open>addAction\<close> first carries out the removals that are waiting. If the
  action's id is not yet in the ledger and the serialised blob with the action in it
  reaches or exceeds 800 bytes, \<^verbatim>\<open>addAction\<close> reports failure; the ledger then holds the
  actions it held before the add and the cache is their serialisation, but the id of the
  rejected action has been given a tombstone with the current time, because the add is
  rolled back through \<^verbatim>\<open>removeActionInternal\<close>.
\<close>

theorem action_overflow_rollback:
  assumes new: "actionID action \<notin> fst ` set (objectActions (checkWaitingToRemove env e))"
    and over: "maxActionsDataSize
                 \<le> dataStreamSize
                      (map (\<lambda>(k, a). serialize env a)
                         (AList.update (actionID action) action
                            (objectActions (checkWaitingToRemove env e))))"
  shows "\<not> fst (addAction env action e)
         \<and> objectActions (snd (addAction env action e))
             = objectActions (checkWaitingToRemove env e)
         \<and> allActionsDataCache (snd (addAction env action e))
             = snd (serializeActions env (checkWaitingToRemove env e))
         \<and> previouslyDeletedActions (snd (addAction env action e))
             = (previouslyDeletedActions (checkWaitingToRemove env e))
                 (actionID action \<mapsto> usecTimestampNow env)"
  by (simp add: addAction_overflow [OF assms])

lemma cw_sample: "checkWaitingToRemove sampleEnv sampleEntity = sampleEntity"
  by (simp add: checkWaitingToRemove_def sampleEntity_def)

text \<open>
  The theorem at the record without actions and an action with 800 bytes of arguments.
\<close>

theorem action_overflow_rollback_witness:
  "actionID bigAction \<notin> fst ` set (objectActions (checkWaitingToRemove sampleEnv sampleEntity))
   \<and> maxActionsDataSize
        \<le> dataStreamSize
             (map (\<lambda>(k, a). serialize sampleEnv a)
                (AList.update (actionID bigAction) bigAction
                   (objectActions (checkWaitingToRemove sampleEnv sampleEntity))))
   \<and> \<not> fst (addAction sampleEnv bigAction sampleEntity)
   \<and> objectActions (snd (addAction sampleEnv bigAction sampleEntity)) = []
   \<and> previouslyDeletedActions (snd (addAction sampleEnv bigAction sampleEntity)) 12 = Some 1000100"
proof -
  have h1: "actionID bigAction \<notin> fst ` set (objectActions (checkWaitingToRemove sampleEnv sampleEntity))"
    by (simp add: cw_sample) (simp add: sampleEntity_def)
  have h2: "maxActionsDataSize
        \<le> dataStreamSize
             (map (\<lambda>(k, a). serialize sampleEnv a)
                (AList.update (actionID bigAction) bigAction
                   (objectActions (checkWaitingToRemove sampleEnv sampleEntity))))"
    by (simp add: cw_sample)
       (simp add: sampleEntity_def sampleEnv_def sampleSerialize_def bigAction_def
          sampleAction_def dataStreamSize_def maxActionsDataSize_def)
  from action_overflow_rollback [OF h1 h2] h1 h2 show ?thesis
    by (simp add: cw_sample) (simp add: sampleEntity_def sampleEnv_def bigAction_def sampleAction_def)
qed

lemma bigAction_overflows:
  "actionID bigAction \<notin> fst ` set (objectActions (checkWaitingToRemove sampleEnv sampleEntity))"
  "maxActionsDataSize
        \<le> dataStreamSize
             (map (\<lambda>(k, a). serialize sampleEnv a)
                (AList.update (actionID bigAction) bigAction
                   (objectActions (checkWaitingToRemove sampleEnv sampleEntity))))"
  by (simp_all add: cw_sample)
     (simp_all add: sampleEntity_def sampleEnv_def sampleSerialize_def bigAction_def
          sampleAction_def dataStreamSize_def maxActionsDataSize_def)

text \<open>
  Claim C6 as stated fails there: the add is refused, and the id 12, which had no
  tombstone before the call, has one after it.
\<close>

theorem action_overflow_counterexample:
  "\<not> fst (addAction sampleEnv bigAction sampleEntity)
   \<and> previouslyDeletedActions sampleEntity 12 = None
   \<and> previouslyDeletedActions (snd (addAction sampleEnv bigAction sampleEntity)) 12 = Some 1000100"
  by (simp add: addAction_overflow [OF bigAction_overflows] cw_sample)
     (simp add: sampleEntity_def sampleEnv_def bigAction_def sampleAction_def)

section \<open>Reconciling the ledger with an incoming blob\<close>

lemma setLocallyAdded_fields [simp]:
  "previouslyDeletedActions (setLocallyAdded k b e) = previouslyDeletedActions e"
  "actionsToRemove (setLocallyAdded k b e) = actionsToRemove e"
  "element (setLocallyAdded k b e) = element e"
  "fst ` set (objectActions (setLocallyAdded k b e)) = fst ` set (objectActions e)"
  by (auto simp: setLocallyAdded_def image_iff split: if_splits) force+

lemma addActionInternal_fields [simp]:
  "previouslyDeletedActions (snd (addActionInternal env a e)) = previouslyDeletedActions e"
  "actionsToRemove (snd (addActionInternal env a e)) = actionsToRemove e"
  "element (snd (addActionInternal env a e)) = element e"
  "objectActions (snd (addActionInternal env a e)) = AList.update (actionID a) a (objectActions e)"
  by (simp_all add: addActionInternal_def Let_def split: prod.splits)

lemma deserializeOne_tombstoned:
  "serializedActionID env sa \<in> dom (previouslyDeletedActions e) \<Longrightarrow>
   deserializeOne env sa (U, e) = (U, e)"
  by (auto simp: deserializeOne_def serializedActionID_def Let_def split: prod.splits)

lemma deserializeOne_fields [simp]:
  "previouslyDeletedActions (snd (deserializeOne env sa (U, e))) = previouslyDeletedActions e"
  "actionsToRemove (snd (deserializeOne env sa (U, e))) = actionsToRemove e"
  by (auto simp: deserializeOne_def Let_def split: prod.splits option.splits)

lemma deserializeOne_updated:
  "serializedActionID env sa \<notin> dom (previouslyDeletedActions e) \<Longrightarrow>
   fst (deserializeOne env sa (U, e)) = insert (serializedActionID env sa) U"
  by (auto simp: deserializeOne_def serializedActionID_def Let_def split: prod.splits option.splits)

lemma fold_deserializeOne_fields:
  "previouslyDeletedActions (snd (fold (deserializeOne env) blob (U, e))) = previouslyDeletedActions e
   \<and> actionsToRemove (snd (fold (deserializeOne env) blob (U, e))) = actionsToRemove e"
proof (induction blob arbitrary: U e)
  case Nil
  then show ?case by simp
next
  case (Cons sa blob)
  obtain U' e' where s: "deserializeOne env sa (U, e) = (U', e')"
    by (cases "deserializeOne env sa (U, e)")
  have "previouslyDeletedActions e' = previouslyDeletedActions e" "actionsToRemove e' = actionsToRemove e"
    using deserializeOne_fields [of env sa U e] s by simp_all
  then show ?case
    using Cons.IH [of U' e'] s by simp
qed

lemma fold_deserializeOne_skip:
  "fold (deserializeOne env) blob (U, e)
     = fold (deserializeOne env)
         (filter (\<lambda>sa. serializedActionID env sa \<notin> dom (previouslyDeletedActions e)) blob) (U, e)"
proof (induction blob arbitrary: U e)
  case Nil
  then show ?case by simp
next
  case (Cons sa blob)
  show ?case
  proof (cases "serializedActionID env sa \<in> dom (previouslyDeletedActions e)")
    case True
    then show ?thesis
      using Cons.IH [of U e] by (simp add: deserializeOne_tombstoned)
  next
    case False
    obtain U' e' where s: "deserializeOne env sa (U, e) = (U', e')"
      by (cases "deserializeOne env sa (U, e)")
    have t: "previouslyDeletedActions e' = previouslyDeletedActions e"
      using deserializeOne_fields(1) [of env sa U e] s by simp
    show ?thesis
      using False Cons.IH [of U' e'] s t by simp
  qed
qed

lemma fold_deserializeOne_updated:
  "fst (fold (deserializeOne env) blob (U, e))
     = U \<union> serializedActionID env `
             set (filter (\<lambda>sa. serializedActionID env sa \<notin> dom (previouslyDeletedActions e)) blob)"
proof (induction blob arbitrary: U e)
  case Nil
  then show ?case by simp
next
  case (Cons sa blob)
  obtain U' e' where s: "deserializeOne env sa (U, e) = (U', e')"
    by (cases "deserializeOne env sa (U, e)")
  have t: "previouslyDeletedActions e' = previouslyDeletedActions e"
    using deserializeOne_fields(1) [of env sa U e] s by simp
  show ?case
  proof (cases "serializedActionID env sa \<in> dom (previouslyDeletedActions e)")
    case True
    then have "U' = U"
      using s by (simp add: deserializeOne_tombstoned)
    then show ?thesis
      using True Cons.IH [of U' e'] s t by simp
  next
    case False
    then have "U' = insert (serializedActionID env sa) U"
      using s deserializeOne_updated [of env sa e U] by simp
    then show ?thesis
      using False Cons.IH [of U' e'] s t by simp
  qed
qed

lemma set_update_cases:
  "distinct (map fst al) \<Longrightarrow> (k', a') \<in> set (AList.update k v al) \<Longrightarrow>
   (k' = k \<and> a' = v) \<or> (k' \<noteq> k \<and> (k', a') \<in> set al)"
  by (induction al) (auto split: if_splits simp: image_iff)

lemma setLocallyAdded_keys [simp]:
  "map fst (objectActions (setLocallyAdded k b e)) = map fst (objectActions e)"
  by (simp add: setLocallyAdded_def comp_def case_prod_unfold)

lemma setLocallyAdded_entry:
  "(k', a') \<in> set (objectActions (setLocallyAdded k False e)) \<Longrightarrow>
   (k' = k \<and> \<not> locallyAddedButNotYetReceived a') \<or> (k' \<noteq> k \<and> (k', a') \<in> set (objectActions e))"
  by (auto simp: setLocallyAdded_def split: if_splits)

lemma deserializeOne_received:
  assumes "received (U, e)"
  shows "received (deserializeOne env sa (U, e))"
proof (cases "serializedActionID env sa \<in> dom (previouslyDeletedActions e)")
  case True
  then show ?thesis
    using assms by (simp add: deserializeOne_tombstoned)
next
  case False
  let ?X = "serializedActionID env sa"
  have X: "snd (streamTypeAndID env sa) = ?X"
    by (simp add: serializedActionID_def)
  have dist: "distinct (map fst (objectActions e))"
    and rec: "\<And>k a. (k, a) \<in> set (objectActions e) \<Longrightarrow> k \<in> U \<Longrightarrow> \<not> locallyAddedButNotYetReceived a"
    using assms by (auto simp: received_def)
  show ?thesis
  proof (cases "map_of (objectActions e) ?X")
    case (Some action)
    then have d: "deserializeOne env sa (U, e)
        = (insert ?X U, e\<lparr>objectActions := AList.update ?X
               ((deserialize env action sa)\<lparr>locallyAddedButNotYetReceived := False\<rparr>)
               (objectActions e)\<rparr>)"
      using False X by (auto simp: deserializeOne_def Let_def split: prod.splits)
    show ?thesis
      unfolding d received_def using dist rec
      by (auto simp: distinct_update dest!: set_update_cases [OF dist])
  next
    case None
    then have notin: "?X \<notin> fst ` set (objectActions e)"
      by (simp add: map_of_eq_None_iff)
    show ?thesis
    proof (cases "factoryBA env sa")
      case N: None
      then have d: "deserializeOne env sa (U, e) = (insert ?X U, e)"
        using False X None by (auto simp: deserializeOne_def Let_def split: prod.splits)
      show ?thesis
        unfolding d received_def using dist rec notin
        by (auto simp: rev_image_eqI)
    next
      case (Some action)
      then have d: "deserializeOne env sa (U, e)
          = (insert ?X U, setLocallyAdded (actionID action) False
                            (snd (addActionInternal env action e)))"
        using False X None by (auto simp: deserializeOne_def Let_def split: prod.splits)
      have k: "\<And>k a. (k, a) \<in> set (objectActions (setLocallyAdded (actionID action) False
                            (snd (addActionInternal env action e)))) \<Longrightarrow>
               k \<in> insert ?X U \<Longrightarrow> \<not> locallyAddedButNotYetReceived a"
      proof -
        fix k a
        assume m: "(k, a) \<in> set (objectActions (setLocallyAdded (actionID action) False
                            (snd (addActionInternal env action e))))"
          and u: "k \<in> insert ?X U"
        from setLocallyAdded_entry [OF m]
        show "\<not> locallyAddedButNotYetReceived a"
        proof
          assume "k = actionID action \<and> \<not> locallyAddedButNotYetReceived a"
          then show ?thesis by simp
        next
          assume o: "k \<noteq> actionID action
                     \<and> (k, a) \<in> set (objectActions (snd (addActionInternal env action e)))"
          then have "(k, a) \<in> set (AList.update (actionID action) action (objectActions e))"
            by simp
          from set_update_cases [OF dist this] o have old: "(k, a) \<in> set (objectActions e)"
            by simp
          then have "k \<noteq> ?X"
            using notin by force
          then have "k \<in> U"
            using u by simp
          then show ?thesis
            using rec old by simp
        qed
      qed
      show ?thesis
        unfolding d received_def using dist k
        by (auto simp: distinct_update)
    qed
  qed
qed

lemma fold_deserializeOne_received:
  "received st \<Longrightarrow> received (fold (deserializeOne env) blob st)"
proof (induction blob arbitrary: st)
  case Nil
  then show ?case by simp
next
  case (Cons sa blob)
  obtain U e where st: "st = (U, e)" by (cases st)
  show ?case
    using Cons.IH [OF deserializeOne_received [of U e env sa]] Cons.prems st by simp
qed

lemma deserializeOne_keys:
  "fst ` set (objectActions e) \<subseteq> fst ` set (objectActions (snd (deserializeOne env sa (U, e))))"
  by (auto simp: deserializeOne_def Let_def dom_update split: prod.splits option.splits)

lemma fold_deserializeOne_keys:
  "fst ` set (objectActions e) \<subseteq> fst ` set (objectActions (snd (fold (deserializeOne env) blob (U, e))))"
proof (induction blob arbitrary: U e)
  case Nil
  then show ?case by simp
next
  case (Cons sa blob)
  obtain U' e' where s: "deserializeOne env sa (U, e) = (U', e')"
    by (cases "deserializeOne env sa (U, e)")
  have "fst ` set (objectActions e) \<subseteq> fst ` set (objectActions e')"
    using deserializeOne_keys [where e = e and env = env and sa = sa and U = U] s by simp
  then show ?case
    using Cons.IH [where U = U' and e = e'] s by auto
qed

lemma deserializeOne_adds:
  assumes "serializedActionID env sa \<notin> dom (previouslyDeletedActions e)"
    and "factoryBA env sa = Some a" and "actionID a = serializedActionID env sa"
  shows "serializedActionID env sa \<in> fst ` set (objectActions (snd (deserializeOne env sa (U, e))))"
  using assms
  by (auto simp: deserializeOne_def serializedActionID_def Let_def dom_update
      split: prod.splits option.splits dest: map_of_SomeD)

lemma fold_deserializeOne_adds:
  assumes "sa \<in> set blob"
    and "serializedActionID env sa \<notin> dom (previouslyDeletedActions e)"
    and "factoryBA env sa = Some a" and "actionID a = serializedActionID env sa"
  shows "serializedActionID env sa
           \<in> fst ` set (objectActions (snd (fold (deserializeOne env) blob (U, e))))"
  using assms
proof (induction blob arbitrary: U e)
  case Nil
  then show ?case by simp
next
  case (Cons sb blob)
  obtain U' e' where s: "deserializeOne env sb (U, e) = (U', e')"
    by (cases "deserializeOne env sb (U, e)")
  have t: "previouslyDeletedActions e' = previouslyDeletedActions e"
    using deserializeOne_fields(1) [of env sb U e] s by simp
  show ?case
  proof (cases "sa = sb")
    case True
    have "serializedActionID env sa \<in> fst ` set (objectActions e')"
      using deserializeOne_adds [OF Cons.prems(2-4), of U] s True by simp
    then show ?thesis
      using fold_deserializeOne_keys [where e = e' and env = env and blob = blob and U = U'] s by auto
  next
    case False
    then have "sa \<in> set blob"
      using Cons.prems(1) by simp
    from Cons.IH [OF this _ Cons.prems(3,4), where U = U' and e = e'] Cons.prems(2) t s
    show ?thesis by simp
  qed
qed

lemma removeUnmentioned_fields:
  "objectActions (removeUnmentioned env U e) = objectActions e"
  "actionsToRemove (removeUnmentioned env U e)
     = actionsToRemove e
       @ map fst (filter (\<lambda>(k, a). k \<notin> U \<and> \<not> locallyAddedButNotYetReceived a) (objectActions e))"
  "previouslyDeletedActions (removeUnmentioned env U e)
     = (\<lambda>k. if k \<in> fst ` set (filter (\<lambda>(k, a). k \<notin> U \<and> \<not> locallyAddedButNotYetReceived a)
                                 (objectActions e))
            then Some (usecTimestampNow env) else previouslyDeletedActions e k)"
proof -
  let ?P = "\<lambda>(k, a). k \<notin> U \<and> \<not> locallyAddedButNotYetReceived a"
  let ?g = "\<lambda>(k, action) e'.
             if k \<notin> U \<and> \<not> locallyAddedButNotYetReceived action
             then e'\<lparr>actionsToRemove := actionsToRemove e' @ [k],
                      previouslyDeletedActions :=
                        (previouslyDeletedActions e')(k \<mapsto> usecTimestampNow env)\<rparr>
             else e'"
  have g: "\<And>xs e0. objectActions (fold ?g xs e0) = objectActions e0
            \<and> actionsToRemove (fold ?g xs e0) = actionsToRemove e0 @ map fst (filter ?P xs)
            \<and> previouslyDeletedActions (fold ?g xs e0)
                = (\<lambda>k. if k \<in> fst ` set (filter ?P xs) then Some (usecTimestampNow env)
                       else previouslyDeletedActions e0 k)"
  proof -
    fix xs e0
    show "objectActions (fold ?g xs e0) = objectActions e0
            \<and> actionsToRemove (fold ?g xs e0) = actionsToRemove e0 @ map fst (filter ?P xs)
            \<and> previouslyDeletedActions (fold ?g xs e0)
                = (\<lambda>k. if k \<in> fst ` set (filter ?P xs) then Some (usecTimestampNow env)
                       else previouslyDeletedActions e0 k)"
    proof (induction xs arbitrary: e0)
      case Nil
      then show ?case by simp
    next
      case (Cons x xs)
      obtain k a where x: "x = (k, a)" by (cases x)
      show ?case
        using Cons.IH [of "?g x e0"] x by (auto simp: fun_eq_iff)
    qed
  qed
  show "objectActions (removeUnmentioned env U e) = objectActions e"
    "actionsToRemove (removeUnmentioned env U e)
       = actionsToRemove e @ map fst (filter ?P (objectActions e))"
    "previouslyDeletedActions (removeUnmentioned env U e)
       = (\<lambda>k. if k \<in> fst ` set (filter ?P (objectActions e))
              then Some (usecTimestampNow env) else previouslyDeletedActions e k)"
    using g [of "objectActions e" e] by (simp_all add: removeUnmentioned_def)
qed

lemma not_expired_now: "\<not> usecTimestampNow env - usecTimestampNow env > rememberDeletedActionTime"
  by simp

lemma map_of_mark:
  "map_of (map (\<lambda>(k0, a). if k0 = k then (k0, f a) else (k0, a)) al) k'
     = (if k' = k then map_option f (map_of al k') else map_of al k')"
  by (induction al) auto

lemma map_of_setLocallyAdded:
  "map_of (objectActions (setLocallyAdded k b e)) k'
     = (if k' = k
        then map_option (\<lambda>a. a\<lparr>locallyAddedButNotYetReceived := b\<rparr>) (map_of (objectActions e) k')
        else map_of (objectActions e) k')"
  by (simp add: setLocallyAdded_def map_of_mark)

lemma deserializeOne_map_of:
  assumes "serializedActionID env sa \<notin> dom (previouslyDeletedActions e)"
    and "\<forall>a. factoryBA env sa = Some a \<longrightarrow> actionID a = serializedActionID env sa"
  shows "map_of (objectActions (snd (deserializeOne env sa (U, e)))) k
           = (if serializedActionID env sa = k
              then reconciledAction env (map_of (objectActions e) k) [sa]
              else map_of (objectActions e) k)"
proof -
  let ?X = "serializedActionID env sa"
  have X: "snd (streamTypeAndID env sa) = ?X"
    by (simp add: serializedActionID_def)
  show ?thesis
  proof (cases "map_of (objectActions e) ?X")
    case (Some action)
    then have d: "deserializeOne env sa (U, e)
        = (insert ?X U, e\<lparr>objectActions := AList.update ?X
               ((deserialize env action sa)\<lparr>locallyAddedButNotYetReceived := False\<rparr>)
               (objectActions e)\<rparr>)"
      using assms(1) X by (auto simp: deserializeOne_def Let_def split: prod.splits)
    show ?thesis
      unfolding d using Some by (auto simp: update_conv')
  next
    case None
    show ?thesis
    proof (cases "factoryBA env sa")
      case N: None
      then have d: "deserializeOne env sa (U, e) = (insert ?X U, e)"
        using assms(1) X None by (auto simp: deserializeOne_def Let_def split: prod.splits)
      show ?thesis
        unfolding d using None N by auto
    next
      case (Some action)
      then have d: "deserializeOne env sa (U, e)
          = (insert ?X U, setLocallyAdded (actionID action) False
                            (snd (addActionInternal env action e)))"
        using assms(1) X None by (auto simp: deserializeOne_def Let_def split: prod.splits)
      have i: "actionID action = ?X"
        using assms(2) Some by simp
      show ?thesis
        unfolding d using None Some i by (auto simp: map_of_setLocallyAdded update_conv')
    qed
  qed
qed

lemma fold_deserializeOne_map_of:
  assumes "\<forall>sa \<in> set blob. serializedActionID env sa \<notin> dom (previouslyDeletedActions e)"
    and "\<forall>sa \<in> set blob. \<forall>a. factoryBA env sa = Some a \<longrightarrow> actionID a = serializedActionID env sa"
  shows "map_of (objectActions (snd (fold (deserializeOne env) blob (U, e)))) k
           = reconciledAction env (map_of (objectActions e) k)
               (filter (\<lambda>sa. serializedActionID env sa = k) blob)"
  using assms
proof (induction blob arbitrary: U e)
  case Nil
  then show ?case by simp
next
  case (Cons sa blob)
  obtain U' e' where s: "deserializeOne env sa (U, e) = (U', e')"
    by (cases "deserializeOne env sa (U, e)")
  have t: "previouslyDeletedActions e' = previouslyDeletedActions e"
    using deserializeOne_fields(1) [of env sa U e] s by simp
  have nt: "serializedActionID env sa \<notin> dom (previouslyDeletedActions e)"
    and fa: "\<forall>a. factoryBA env sa = Some a \<longrightarrow> actionID a = serializedActionID env sa"
    using Cons.prems by simp_all
  have one: "map_of (objectActions e') k
           = (if serializedActionID env sa = k
              then reconciledAction env (map_of (objectActions e) k) [sa]
              else map_of (objectActions e) k)"
    using deserializeOne_map_of [OF nt fa, of U k] s by simp
  have ih: "map_of (objectActions (snd (fold (deserializeOne env) blob (U', e')))) k
           = reconciledAction env (map_of (objectActions e') k)
               (filter (\<lambda>sa. serializedActionID env sa = k) blob)"
    using Cons.IH [of e' U'] Cons.prems t by simp
  show ?case
  proof (cases "serializedActionID env sa = k")
    case True
    then show ?thesis
      using ih one s by (cases "map_of (objectActions e) k") simp_all
  next
    case False
    then show ?thesis
      using ih one s by simp
  qed
qed

text \<open>
  Claim C7, amended. With the record in a tree element and one ledger entry per id, a
  pass of \<^verbatim>\<open>deserializeActionsInternal\<close> skips every incoming action whose id has a
  tombstone when the pass starts, an expired tombstone included; for the others, when the
  factory gives each action the id of its serialised form, the action held under an id
  after the pass is the one before it updated by \<^verbatim>\<open>deserialize\<close> from every entry that
  mentions the id, in their order, or for a new id the one the factory builds, and the
  flag \<^verbatim>\<open>locallyAddedButNotYetReceived\<close> is clear on each of them; the pass then schedules
  for removal and tombstones every local action that was not mentioned and whose flag is
  clear; and only at its end does it purge the tombstones older than 20 seconds. So after
  add(A), add(B), remove(A), a blob with only B leaves exactly B, a later blob that
  mentions A within the window leaves the ledger unchanged, the first blob that mentions
  A after the window is still skipped while A's tombstone is purged, and A is added
  fresh by the pass after that.
\<close>

theorem blob_reconciliation:
  assumes el: "element e \<noteq> None"
    and dist: "distinct (map fst (objectActions e))"
  shows
    "(let e' = deserializeActionsInternal env e;
          now = usecTimestampNow env;
          updated = serializedActionID env ` set (notTombstoned env e);
          unmentioned = filter (\<lambda>(k, a). k \<notin> updated \<and> \<not> locallyAddedButNotYetReceived a)
                          (objectActions e')
      in ((\<forall>sa \<in> set (notTombstoned env e). \<forall>a.
              factoryBA env sa = Some a \<longrightarrow> actionID a = serializedActionID env sa) \<longrightarrow>
          (\<forall>k. map_of (objectActions e') k
                 = reconciledAction env (map_of (objectActions e) k)
                     (filter (\<lambda>sa. serializedActionID env sa = k) (notTombstoned env e))))
         \<and> fst ` set (objectActions e) \<subseteq> fst ` set (objectActions e')
         \<and> (\<forall>sa \<in> set (notTombstoned env e). \<forall>a.
               factoryBA env sa = Some a \<and> actionID a = serializedActionID env sa \<longrightarrow>
               serializedActionID env sa \<in> fst ` set (objectActions e'))
         \<and> (\<forall>(k, a) \<in> set (objectActions e').
               k \<in> updated \<longrightarrow> \<not> locallyAddedButNotYetReceived a)
         \<and> actionsToRemove e' = actionsToRemove e @ map fst unmentioned
         \<and> (\<forall>k. previouslyDeletedActions e' k =
               (if k \<in> fst ` set unmentioned then Some now
                else case previouslyDeletedActions e k of
                       None \<Rightarrow> None
                     | Some t \<Rightarrow> if now - t > rememberDeletedActionTime then None else Some t)))"
proof -
  let ?blob = "allActionsDataCache e"
  let ?live = "notTombstoned env e"
  let ?st = "fold (deserializeOne env) ?blob ({}, e)"
  let ?U = "serializedActionID env ` set ?live"
  have skip: "?st = fold (deserializeOne env) ?live ({}, e)"
    unfolding notTombstoned_def by (rule fold_deserializeOne_skip)
  have upd: "fst ?st = ?U"
    using fold_deserializeOne_updated [of env ?blob "{}" e] by (simp add: notTombstoned_def)
  have fl: "previouslyDeletedActions (snd ?st) = previouslyDeletedActions e"
    "actionsToRemove (snd ?st) = actionsToRemove e"
    using fold_deserializeOne_fields [of env ?blob "{}" e] by simp_all
  have rec: "received ?st"
    by (rule fold_deserializeOne_received) (simp add: received_def dist)
  have e': "deserializeActionsInternal env e
             = (trimPreviouslyDeleted env (removeUnmentioned env ?U (snd ?st)))\<lparr>actionDataDirty := True\<rparr>"
  proof -
    from el obtain tree where "element e = Some tree"
      by auto
    then show ?thesis
      using upd by (simp add: deserializeActionsInternal_def Let_def case_prod_unfold)
  qed
  have oa: "objectActions (deserializeActionsInternal env e) = objectActions (snd ?st)"
    by (simp add: e' trimPreviouslyDeleted_def removeUnmentioned_fields)
  have keys: "fst ` set (objectActions e) \<subseteq> fst ` set (objectActions (snd ?st))"
    by (rule fold_deserializeOne_keys)
  have adds: "\<forall>sa \<in> set ?live. \<forall>a.
               factoryBA env sa = Some a \<and> actionID a = serializedActionID env sa \<longrightarrow>
               serializedActionID env sa \<in> fst ` set (objectActions (snd ?st))"
  proof (intro ballI allI impI)
    fix sa a
    assume m: "sa \<in> set ?live"
      and f: "factoryBA env sa = Some a \<and> actionID a = serializedActionID env sa"
    from m have "sa \<in> set ?blob" "serializedActionID env sa \<notin> dom (previouslyDeletedActions e)"
      by (simp_all add: notTombstoned_def)
    from fold_deserializeOne_adds [OF this, of a "{}"] f
    show "serializedActionID env sa \<in> fst ` set (objectActions (snd ?st))"
      by simp
  qed
  have flags: "\<forall>(k, a) \<in> set (objectActions (snd ?st)). k \<in> ?U \<longrightarrow> \<not> locallyAddedButNotYetReceived a"
    using rec upd by (simp add: received_def)
  have rem: "actionsToRemove (deserializeActionsInternal env e)
        = actionsToRemove e
          @ map fst (filter (\<lambda>(k, a). k \<notin> ?U \<and> \<not> locallyAddedButNotYetReceived a)
                       (objectActions (snd ?st)))"
    by (simp add: e' trimPreviouslyDeleted_def removeUnmentioned_fields fl)
  have tomb: "\<forall>k. previouslyDeletedActions (deserializeActionsInternal env e) k =
               (if k \<in> fst ` set (filter (\<lambda>(k, a). k \<notin> ?U \<and> \<not> locallyAddedButNotYetReceived a)
                                     (objectActions (snd ?st)))
                then Some (usecTimestampNow env)
                else case previouslyDeletedActions e k of
                       None \<Rightarrow> None
                     | Some t \<Rightarrow> if usecTimestampNow env - t > rememberDeletedActionTime
                                 then None else Some t)"
    by (simp add: e' trimPreviouslyDeleted_def removeUnmentioned_fields fl)
  have upds: "(\<forall>sa \<in> set ?live. \<forall>a.
              factoryBA env sa = Some a \<longrightarrow> actionID a = serializedActionID env sa) \<longrightarrow>
          (\<forall>k. map_of (objectActions (snd ?st)) k
                 = reconciledAction env (map_of (objectActions e) k)
                     (filter (\<lambda>sa. serializedActionID env sa = k) ?live))"
  proof (intro impI allI)
    fix k
    assume fa: "\<forall>sa \<in> set ?live. \<forall>a.
              factoryBA env sa = Some a \<longrightarrow> actionID a = serializedActionID env sa"
    have nt: "\<forall>sa \<in> set ?live. serializedActionID env sa \<notin> dom (previouslyDeletedActions e)"
      by (simp add: notTombstoned_def)
    show "map_of (objectActions (snd ?st)) k
            = reconciledAction env (map_of (objectActions e) k)
                (filter (\<lambda>sa. serializedActionID env sa = k) ?live)"
      unfolding skip by (rule fold_deserializeOne_map_of [OF nt fa])
  qed
  show ?thesis
    unfolding Let_def oa
    using upds keys adds flags rem tomb by simp
qed


lemmas ledger_defs = addAction_def addActionInternal_def removeAction_def removeActionInternal_def
  checkWaitingToRemove_def serializeActions_def setLocallyAdded_def setActionDataInternal_def
  deserializeActionsInternal_def deserializeOne_def removeUnmentioned_def trimPreviouslyDeleted_def
  dataStreamSize_def maxActionsDataSize_def rememberDeletedActionTime_def USECS_PER_SECOND_def
  envAt_def sampleEnv_def sampleSerialize_def sampleTypeAndID_def sampleDeserialize_def
  sampleFactory_def sampleAction_def Let_def

lemma l1: "ledger1 = sampleEntity\<lparr>objectActions := [(10, (sampleAction 10)\<lparr>locallyAddedButNotYetReceived := True\<rparr>)],
     allActionsDataCache := [[1, 10]], dirtyFlags := {DIRTY_PHYSICS_ACTIVATION}\<rparr>"
  unfolding ledger1_def by (simp add: ledger_defs sampleEntity_def)

lemma l2: "ledger2 = sampleEntity\<lparr>objectActions := [(10, (sampleAction 10)\<lparr>locallyAddedButNotYetReceived := True\<rparr>),
        (11, (sampleAction 11)\<lparr>locallyAddedButNotYetReceived := True\<rparr>)],
     allActionsDataCache := [[1, 10], [1, 11]], dirtyFlags := {DIRTY_PHYSICS_ACTIVATION}\<rparr>"
  unfolding ledger2_def l1 by (simp add: ledger_defs sampleEntity_def)

lemma l3: "ledger3 = sampleEntity\<lparr>objectActions := [(11, (sampleAction 11)\<lparr>locallyAddedButNotYetReceived := True\<rparr>)],
     allActionsDataCache := [[1, 11]], dirtyFlags := {DIRTY_PHYSICS_ACTIVATION},
     previouslyDeletedActions := [10 \<mapsto> 300], actionDataNeedsTransmit := True\<rparr>"
  unfolding ledger3_def l2 by (simp add: ledger_defs sampleEntity_def)

lemma l4: "ledger4 = sampleEntity\<lparr>objectActions :=
       [(11, (sampleAction 11)\<lparr>actionArguments := [5], locallyAddedButNotYetReceived := False\<rparr>)],
     allActionsDataCache := [[1, 11, 5]], dirtyFlags := {DIRTY_PHYSICS_ACTIVATION},
     previouslyDeletedActions := [10 \<mapsto> 300], actionDataNeedsTransmit := True,
     actionDataDirty := True\<rparr>"
  unfolding ledger4_def l3 by (simp add: ledger_defs sampleEntity_def fun_eq_iff)

lemma l5: "ledger5 = sampleEntity\<lparr>objectActions :=
       [(11, (sampleAction 11)\<lparr>actionArguments := [6], locallyAddedButNotYetReceived := False\<rparr>)],
     allActionsDataCache := [[1, 10], [1, 11, 6]], dirtyFlags := {DIRTY_PHYSICS_ACTIVATION},
     previouslyDeletedActions := [10 \<mapsto> 300], actionDataNeedsTransmit := True,
     actionDataDirty := True\<rparr>"
  unfolding ledger5_def l4 by (simp add: ledger_defs sampleEntity_def fun_eq_iff)

lemma l6: "ledger6 = sampleEntity\<lparr>objectActions :=
       [(11, (sampleAction 11)\<lparr>actionArguments := [7], locallyAddedButNotYetReceived := False\<rparr>)],
     allActionsDataCache := [[1, 10], [1, 11, 7]], dirtyFlags := {DIRTY_PHYSICS_ACTIVATION},
     previouslyDeletedActions := Map.empty, actionDataNeedsTransmit := True,
     actionDataDirty := True\<rparr>"
  unfolding ledger6_def l5 by (simp add: ledger_defs sampleEntity_def fun_eq_iff)

lemma l7: "map fst (objectActions ledger7) = [11, 10] \<and> previouslyDeletedActions ledger7 = Map.empty"
  unfolding ledger7_def l6 by (simp add: ledger_defs sampleEntity_def fun_eq_iff)

text \<open>
  The theorem at the fourth blob of the sample sequence, which arrives after the
  tombstone of action 10 has been purged: 11 stays, with its arguments updated from
  [7] to the [8] of the blob, and 10 is added. Before it the ledger held 11 alone since
  the first blob.
\<close>

theorem blob_reconciliation_witness:
  "element pendingLedger \<noteq> None
   \<and> distinct (map fst (objectActions pendingLedger))
   \<and> 11 \<in> fst ` set (objectActions (deserializeActionsInternal (envAt 31000000) pendingLedger))
   \<and> 10 \<in> fst ` set (objectActions (deserializeActionsInternal (envAt 31000000) pendingLedger))
   \<and> map fst (objectActions ledger4) = [11]
   \<and> map fst (objectActions ledger5) = [11]
   \<and> map fst (objectActions ledger7) = [11, 10]
   \<and> map_of (objectActions pendingLedger) 11
       = Some ((sampleAction 11)\<lparr>actionArguments := [7]\<rparr>)
   \<and> map_of (objectActions (deserializeActionsInternal (envAt 31000000) pendingLedger)) 11
       = Some ((sampleAction 11)\<lparr>actionArguments := [8]\<rparr>)"
proof -
  have h: "element pendingLedger \<noteq> None" "distinct (map fst (objectActions pendingLedger))"
    unfolding pendingLedger_def l6 by (simp_all add: sampleEntity_def)
  have k: "11 \<in> fst ` set (objectActions pendingLedger)"
    unfolding pendingLedger_def l6 by (simp add: sampleEntity_def)
  have n: "[1, 10] \<in> set (notTombstoned (envAt 31000000) pendingLedger)"
    unfolding pendingLedger_def l6
    by (simp add: notTombstoned_def serializedActionID_def envAt_def sampleEnv_def
        sampleTypeAndID_def sampleEntity_def)
  have f: "factoryBA (envAt 31000000) [1, 10] = Some (sampleAction 10)
           \<and> actionID (sampleAction 10) = serializedActionID (envAt 31000000) [1, 10]"
    by (simp add: envAt_def sampleEnv_def sampleFactory_def sampleAction_def
        serializedActionID_def sampleTypeAndID_def)
  have s: "serializedActionID (envAt 31000000) [1, 10] = 10"
    by (simp add: envAt_def sampleEnv_def serializedActionID_def sampleTypeAndID_def)
  note br = blob_reconciliation [OF h, of "envAt 31000000", unfolded Let_def]
  have sub: "fst ` set (objectActions pendingLedger)
               \<subseteq> fst ` set (objectActions (deserializeActionsInternal (envAt 31000000) pendingLedger))"
    by (rule br [THEN conjunct2, THEN conjunct1])
  have add: "\<forall>sa \<in> set (notTombstoned (envAt 31000000) pendingLedger). \<forall>a.
               factoryBA (envAt 31000000) sa = Some a
                 \<and> actionID a = serializedActionID (envAt 31000000) sa \<longrightarrow>
               serializedActionID (envAt 31000000) sa
                 \<in> fst ` set (objectActions (deserializeActionsInternal (envAt 31000000) pendingLedger))"
    by (rule br [THEN conjunct2, THEN conjunct2, THEN conjunct1])
  have a11: "11 \<in> fst ` set (objectActions (deserializeActionsInternal (envAt 31000000) pendingLedger))"
    using sub k by (rule subsetD)
  have "serializedActionID (envAt 31000000) [1, 10]
          \<in> fst ` set (objectActions (deserializeActionsInternal (envAt 31000000) pendingLedger))"
    using add [rule_format, OF n f] .
  then have a10: "10 \<in> fst ` set (objectActions (deserializeActionsInternal (envAt 31000000) pendingLedger))"
    by (simp only: s)
  have l: "map fst (objectActions ledger4) = [11]" "map fst (objectActions ledger5) = [11]"
    "map fst (objectActions ledger7) = [11, 10]"
    using l7 by (simp_all add: l4 l5 sampleEntity_def)
  have nt: "notTombstoned (envAt 31000000) pendingLedger = [[1, 10], [1, 11, 8]]"
    unfolding pendingLedger_def l6
    by (simp add: notTombstoned_def serializedActionID_def envAt_def sampleEnv_def
        sampleTypeAndID_def sampleEntity_def)
  have fa: "\<forall>sa \<in> set (notTombstoned (envAt 31000000) pendingLedger). \<forall>a.
              factoryBA (envAt 31000000) sa = Some a \<longrightarrow>
              actionID a = serializedActionID (envAt 31000000) sa"
    unfolding nt
    by (simp add: envAt_def sampleEnv_def sampleFactory_def serializedActionID_def
        sampleTypeAndID_def)
  have old: "map_of (objectActions pendingLedger) 11
               = Some ((sampleAction 11)\<lparr>actionArguments := [7]\<rparr>)"
    unfolding pendingLedger_def l6 by (simp add: sampleEntity_def sampleAction_def)
  have "map_of (objectActions (deserializeActionsInternal (envAt 31000000) pendingLedger)) 11
          = reconciledAction (envAt 31000000) (map_of (objectActions pendingLedger) 11)
              (filter (\<lambda>sa. serializedActionID (envAt 31000000) sa = 11)
                 (notTombstoned (envAt 31000000) pendingLedger))"
    using mp [OF br [THEN conjunct1] fa] by (rule spec)
  then have new: "map_of (objectActions (deserializeActionsInternal (envAt 31000000) pendingLedger)) 11
          = Some ((sampleAction 11)\<lparr>actionArguments := [8]\<rparr>)"
    unfolding nt old
    by (simp add: serializedActionID_def envAt_def sampleEnv_def sampleTypeAndID_def
        sampleDeserialize_def sampleAction_def)
  from h a11 a10 l old new show ?thesis
    by blast
qed

text \<open>
  Claim C7 as stated fails at the third blob of the sample sequence: it arrives thirty
  seconds after the removal of action 10, outside the window of twenty, it mentions
  action 10, and the ledger after the pass still holds 11 alone.
\<close>

theorem blob_reconciliation_counterexample:
  "usecTimestampNow (envAt 30000000) - 300 > rememberDeletedActionTime
   \<and> previouslyDeletedActions ledger5 10 = Some 300
   \<and> serializedActionID (envAt 30000000) [1, 10] = 10
   \<and> allActionsDataCache ledger6 = [[1, 10], [1, 11, 7]]
   \<and> map fst (objectActions ledger6) = [11]"
  by (simp add: l5 l6 sampleEntity_def envAt_def sampleEnv_def serializedActionID_def
      sampleTypeAndID_def rememberDeletedActionTime_def USECS_PER_SECOND_def)

lemma ledgerOnly_refl: "ledgerOnly e e"
  by (auto simp: ledgerOnly_def withLedgerOf_def)

lemma ledgerOnly_trans: "ledgerOnly e e' \<Longrightarrow> ledgerOnly e' e'' \<Longrightarrow> ledgerOnly e e''"
  unfolding ledgerOnly_def
proof (intro conjI)
  assume a: "e' = withLedgerOf e e' \<and> dirtyFlags e \<subseteq> dirtyFlags e' \<and> dirtyFlags e' \<subseteq> dirtyFlags e \<union> {DIRTY_PHYSICS_ACTIVATION}"
    and b: "e'' = withLedgerOf e' e'' \<and> dirtyFlags e' \<subseteq> dirtyFlags e'' \<and> dirtyFlags e'' \<subseteq> dirtyFlags e' \<union> {DIRTY_PHYSICS_ACTIVATION}"
  have "withLedgerOf e' e'' = withLedgerOf (withLedgerOf e e') e''"
    using a by simp
  also have "\<dots> = withLedgerOf e e''"
    by (simp add: withLedgerOf_def)
  finally show "e'' = withLedgerOf e e''"
    using b by simp
  show "dirtyFlags e \<subseteq> dirtyFlags e''" using a b by blast
  show "dirtyFlags e'' \<subseteq> dirtyFlags e \<union> {DIRTY_PHYSICS_ACTIVATION}" using a b by blast
qed

lemma ledgerOnly_upd:
  "ledgerOnly e (e\<lparr>objectActions := x\<rparr>)"
  "ledgerOnly e (e\<lparr>previouslyDeletedActions := y\<rparr>)"
  "ledgerOnly e (e\<lparr>actionsToRemove := z\<rparr>)"
  "ledgerOnly e (e\<lparr>allActionsDataCache := c\<rparr>)"
  "ledgerOnly e (e\<lparr>actionDataDirty := d\<rparr>)"
  by (auto simp: ledgerOnly_def withLedgerOf_def)

lemma addActionInternal_ledgerOnly: "ledgerOnly e (snd (addActionInternal env a e))"
  by (cases "serializeActions env (e\<lparr>objectActions := AList.update (actionID a) a (objectActions e)\<rparr>)")
     (auto simp: addActionInternal_def Let_def ledgerOnly_def withLedgerOf_def)

lemma removeActionInternal_ledgerOnly: "ledgerOnly e (snd (removeActionInternal env k e))"
  by (auto simp: removeActionInternal_def Let_def ledgerOnly_def withLedgerOf_def
      split: option.splits prod.splits)

lemma fold_ledgerOnly:
  assumes "\<And>x e. ledgerOnly e (f x e)"
  shows "ledgerOnly e (fold f xs e)"
proof (induction xs arbitrary: e)
  case Nil
  then show ?case by (simp add: ledgerOnly_refl)
next
  case (Cons x xs)
  show ?case
    using ledgerOnly_trans [OF assms [of e x] Cons.IH [of "f x e"]] by simp
qed

lemma checkWaitingToRemove_ledgerOnly: "ledgerOnly e (checkWaitingToRemove env e)"
  unfolding checkWaitingToRemove_def
  by (rule ledgerOnly_trans [OF fold_ledgerOnly ledgerOnly_upd(3)])
     (rule removeActionInternal_ledgerOnly)

lemma setLocallyAdded_ledgerOnly: "ledgerOnly e (setLocallyAdded k b e)"
  by (simp add: setLocallyAdded_def ledgerOnly_upd)

lemma deserializeOne_ledgerOnly: "ledgerOnly e (snd (deserializeOne env sa (U, e)))"
  by (auto simp: deserializeOne_def Let_def ledgerOnly_refl ledgerOnly_upd
      split: prod.splits option.splits
      intro: ledgerOnly_trans [OF addActionInternal_ledgerOnly setLocallyAdded_ledgerOnly])

lemma fold_deserializeOne_ledgerOnly:
  "ledgerOnly e (snd (fold (deserializeOne env) blob (U, e)))"
proof (induction blob arbitrary: U e)
  case Nil
  then show ?case by (simp add: ledgerOnly_refl)
next
  case (Cons sa blob)
  obtain U' e' where s: "deserializeOne env sa (U, e) = (U', e')"
    by (cases "deserializeOne env sa (U, e)")
  have "ledgerOnly e e'"
    using deserializeOne_ledgerOnly [of e env sa U] s by simp
  from ledgerOnly_trans [OF this Cons.IH [where U = U' and e = e']] s
  show ?case by simp
qed

lemma removeUnmentioned_ledgerOnly: "ledgerOnly e (removeUnmentioned env U e)"
proof -
  have "\<And>xs e0. ledgerOnly e0 (fold (\<lambda>(k, action) e'.
             if k \<notin> U \<and> \<not> locallyAddedButNotYetReceived action
             then e'\<lparr>actionsToRemove := actionsToRemove e' @ [k],
                      previouslyDeletedActions :=
                        (previouslyDeletedActions e')(k \<mapsto> usecTimestampNow env)\<rparr>
             else e') xs e0)"
    by (rule fold_ledgerOnly) (auto simp: ledgerOnly_def withLedgerOf_def split: if_splits)
  then show ?thesis
    by (simp add: removeUnmentioned_def)
qed

lemma deserializeActionsInternal_ledgerOnly: "ledgerOnly e (deserializeActionsInternal env e)"
proof (cases "element e")
  case None
  then show ?thesis by (simp add: deserializeActionsInternal_def ledgerOnly_refl)
next
  case (Some tree)
  let ?st = "fold (deserializeOne env) (allActionsDataCache e) ({}, e)"
  have 1: "ledgerOnly e (snd ?st)"
    by (rule fold_deserializeOne_ledgerOnly)
  have 2: "ledgerOnly (snd ?st) (removeUnmentioned env (fst ?st) (snd ?st))"
    by (rule removeUnmentioned_ledgerOnly)
  have 3: "\<And>x. ledgerOnly x ((trimPreviouslyDeleted env x)\<lparr>actionDataDirty := True\<rparr>)"
    by (auto simp: trimPreviouslyDeleted_def ledgerOnly_def withLedgerOf_def)
  show ?thesis
    using ledgerOnly_trans [OF ledgerOnly_trans [OF 1 2] 3] Some
    by (simp add: deserializeActionsInternal_def Let_def case_prod_unfold)
qed

lemma setActionDataInternal_ledgerOnly: "ledgerOnly e (setActionDataInternal env b e)"
  unfolding setActionDataInternal_def
  by (auto intro!: ledgerOnly_trans [OF _ checkWaitingToRemove_ledgerOnly]
      ledgerOnly_trans [OF ledgerOnly_upd(4) deserializeActionsInternal_ledgerOnly]
      simp: ledgerOnly_refl)

section \<open>What the ledger operations and the property setters write\<close>

lemmas update_defs = updatePosition_def updateRotation_def updateVelocity_def
  updateAngularVelocity_def updateDimensions_def setDimensions_def updateDensity_def
  updateGravity_def updateDamping_def updateAngularDamping_def updateCollisionless_def
  updateCollisionMask_def updateDynamic_def updateRestitution_def updateFriction_def
  updateLifetime_def updateCreated_def setHref_def updateSimulationOwner_def
  SimulationOwner_set_def

lemma footprint_same: "footprint P e e = e"
  by (cases P) (simp_all add: footprint_def withLedgerOf_def)

lemma applyProperty_footprint:
  "applyProperty env P v e = footprint P e (applyProperty env P v e)"
proof (cases "valueFits P v")
  case False
  then show ?thesis
    by (simp add: applyProperty_def footprint_same)
next
  case True
  show ?thesis
  proof (cases v)
    case (VBytes x)
    then have P: "P = PROP_ACTION_DATA"
      using True by (simp add: valueFits_def)
    have "ledgerOnly e (setActionDataInternal env x e)"
      by (rule setActionDataInternal_ledgerOnly)
    then show ?thesis
      using VBytes True P by (simp add: applyProperty_def footprint_def ledgerOnly_def)
  next
    case (VOwner x)
    then have "P = PROP_SIMULATION_OWNER"
      using True by (simp add: valueFits_def)
    then show ?thesis using VOwner
      by (simp add: applyProperty_def valueFits_def footprint_def update_defs Let_def)
  next
    case (VVec3 x)
    then have "P \<in> {PROP_POSITION, PROP_VELOCITY, PROP_ANGULAR_VELOCITY, PROP_ACCELERATION,
                         PROP_DIMENSIONS, PROP_GRAVITY, PROP_REGISTRATION_POINT}"
      using True by (simp add: valueFits_def)
    then show ?thesis using VVec3
      by (elim insertE emptyE)
         (simp_all add: applyProperty_def valueFits_def footprint_def update_defs Let_def
            split: prod.splits)
  next
    case (VQuat x)
    then have "P = PROP_ROTATION"
      using True by (simp add: valueFits_def)
    then show ?thesis using VQuat
      by (simp add: applyProperty_def valueFits_def footprint_def update_defs Let_def)
  next
    case (VFloat x)
    then have "P \<in> {PROP_DENSITY, PROP_DAMPING, PROP_RESTITUTION, PROP_FRICTION,
                          PROP_LIFETIME, PROP_ANGULAR_DAMPING, PROP_GLOW_LEVEL,
                          PROP_LOCAL_RENDER_ALPHA}"
      using True by (simp add: valueFits_def)
    then show ?thesis using VFloat
      by (elim insertE emptyE)
         (simp_all add: applyProperty_def valueFits_def footprint_def update_defs Let_def)
  next
    case (VString x)
    then have "P \<in> {PROP_SCRIPT, PROP_COLLISION_SOUND_URL, PROP_USER_DATA,
                           PROP_MARKETPLACE_ID, PROP_NAME, PROP_HREF, PROP_DESCRIPTION}"
      using True by (simp add: valueFits_def)
    then show ?thesis using VString
      by (elim insertE emptyE)
         (simp_all add: applyProperty_def valueFits_def footprint_def update_defs Let_def)
  next
    case (VU64 x)
    then have "P \<in> {PROP_SCRIPT_TIMESTAMP, PROP_CREATED}"
      using True by (simp add: valueFits_def)
    then show ?thesis using VU64
      by (elim insertE emptyE)
         (simp_all add: applyProperty_def valueFits_def footprint_def update_defs Let_def)
  next
    case (VBool x)
    then have "P \<in> {PROP_VISIBLE, PROP_COLLISIONLESS, PROP_DYNAMIC, PROP_LOCKED}"
      using True by (simp add: valueFits_def)
    then show ?thesis using VBool
      by (elim insertE emptyE)
         (simp_all add: applyProperty_def valueFits_def footprint_def update_defs Let_def)
  next
    case (VU8 x)
    then have "P = PROP_COLLISION_MASK"
      using True by (simp add: valueFits_def)
    then show ?thesis using VU8
      by (simp add: applyProperty_def valueFits_def footprint_def update_defs Let_def)
  next
    case (VU16 x)
    then have "P = PROP_PARENT_JOINT_INDEX"
      using True by (simp add: valueFits_def)
    then show ?thesis using VU16
      by (simp add: applyProperty_def valueFits_def footprint_def update_defs Let_def)
  next
    case (VUuid x)
    then have "P = PROP_PARENT_ID"
      using True by (simp add: valueFits_def)
    then show ?thesis using VUuid
      by (simp add: applyProperty_def valueFits_def footprint_def update_defs Let_def)
  next
    case (VCube x)
    then have "P = PROP_QUERY_AA_CUBE"
      using True by (simp add: valueFits_def)
    then show ?thesis using VCube
      by (simp add: applyProperty_def valueFits_def footprint_def update_defs Let_def)
  qed
qed

lemma footprint_bookkeeping:
  "P \<noteq> PROP_CREATED \<Longrightarrow> bookkeeping (footprint P e e') = bookkeeping e"
  by (cases P) (simp_all add: footprint_def bookkeeping_def withLedgerOf_def)

lemma getActionData_upd [simp]:
  "getActionData env (e\<lparr>dirtyFlags := d\<rparr>) = getActionData env e"
  by (simp add: getActionData_def serializeActions_def)



section \<open>What the decoder writes\<close>

lemma applyProperty_bookkeeping:
  "P \<noteq> PROP_CREATED \<Longrightarrow> bookkeeping (applyProperty env P v e) = bookkeeping e"
  using footprint_bookkeeping [of P e "applyProperty env P v e"] applyProperty_footprint [of env P v e]
  by simp


lemma READ_bookkeeping:
  "READ_ENTITY_PROPERTY env flags ow P (d, n, e) = Some (d', n', e') \<Longrightarrow> P \<noteq> PROP_CREATED \<Longrightarrow>
   bookkeeping e' = bookkeeping e"
  by (auto simp: READ_ENTITY_PROPERTY_def applyProperty_bookkeeping
      split: if_splits list.splits wire.splits)



lemma readProperties_bookkeeping:
  "readProperties env flags ow Ps (d, n, e) = Some (d', n', e') \<Longrightarrow> PROP_CREATED \<notin> set Ps \<Longrightarrow>
   bookkeeping e' = bookkeeping e"
proof (induction Ps arbitrary: d n e)
  case Nil
  then show ?case by simp
next
  case (Cons P Ps)
  from Cons.prems(1) obtain d1 n1 e1 where
    1: "READ_ENTITY_PROPERTY env flags ow P (d, n, e) = Some (d1, n1, e1)"
    and 2: "readProperties env flags ow Ps (d1, n1, e1) = Some (d', n', e')"
    by (auto split: option.splits)
  from READ_bookkeeping [OF 1] Cons.IH [OF 2] Cons.prems(2) show ?case
    by auto
qed



lemma readSimulationOwner_footprint:
  "readSimulationOwner env flags (d, n, e) = Some (d', n', e') \<Longrightarrow>
   e' = footprint PROP_SIMULATION_OWNER e e'"
  by (auto simp: readSimulationOwner_def footprint_def SimulationOwner_set_def Let_def
      split: if_splits list.splits wire.splits PropertyValue.splits)

lemma simulateAngular_footprint:
  "simulateAngular env t f e =
     e\<lparr>localOrientation := localOrientation (simulateAngular env t f e),
       angularVelocity := angularVelocity (simulateAngular env t f e),
       dirtyFlags := dirtyFlags (simulateAngular env t f e)\<rparr>"
  by (simp add: simulateAngular_def Let_def split: prod.splits)

lemma simulateLinear_footprint:
  "simulateLinear t f e =
     e\<lparr>localPosition := localPosition (simulateLinear t f e),
       velocity := velocity (simulateLinear t f e),
       dirtyFlags := dirtyFlags (simulateLinear t f e)\<rparr>"
  by (simp add: simulateLinear_def Let_def)

lemma simulateAngular_bookkeeping: "bookkeeping (simulateAngular env t f e) = bookkeeping e"
  by (subst simulateAngular_footprint) (simp add: bookkeeping_def)

lemma simulateLinear_bookkeeping: "bookkeeping (simulateLinear t f e) = bookkeeping e"
  by (subst simulateLinear_footprint) (simp add: bookkeeping_def)

lemma simulateKinematicMotion_bookkeeping:
  "bookkeeping (simulateKinematicMotion env t f e) = bookkeeping e"
  by (simp add: simulateKinematicMotion_def Let_def simulateAngular_bookkeeping
      simulateLinear_bookkeeping)




lemma readProperties_append:
  "readProperties env flags ow (Ps @ Qs) st =
     (case readProperties env flags ow Ps st of
        None \<Rightarrow> None
      | Some st' \<Rightarrow> readProperties env flags ow Qs st')"
  by (induction Ps arbitrary: st) (simp_all split: option.splits)

lemma readEntityProperties_eq:
  "readEntityProperties env args flags ow ls (d, n, e) =
     (case readSimulationOwner env flags (d, n, e) of
        None \<Rightarrow> None
      | Some st1 \<Rightarrow>
          (case readProperties env flags
                  (ow \<and> \<not> matchesValidID (sessionUUID env) (simulationOwner e)) terseOrder st1 of
             None \<Rightarrow> None
           | Some st2 \<Rightarrow>
               (case readProperties env flags ow (laterOrder env args) st2 of
                  None \<Rightarrow> None
                | Some (d6, n6, e6) \<Rightarrow> Some (n6, extrapolateAfterRead env ow ls e6))))"
  by (simp add: readEntityProperties_def laterOrder_def extrapolateAfterRead_def Let_def
      readProperties_append split: option.splits prod.splits)

lemma laterOrder_set:
  "set (laterOrder env args)
     \<subseteq> set readOrderBeforeMarketplace \<union> {PROP_MARKETPLACE_ID} \<union> set readOrderAfterMarketplace"
  by (auto simp: laterOrder_def)

lemma laterOrder_not:
  "Q \<in> {PROP_SIMULATION_OWNER, PROP_POSITION, PROP_ROTATION, PROP_VELOCITY, PROP_ANGULAR_VELOCITY,
         PROP_ACCELERATION, PROP_CREATED, PROP_GLOW_LEVEL, PROP_LOCAL_RENDER_ALPHA, PROP_LAST_ITEM}
   \<Longrightarrow> Q \<notin> set (laterOrder env args)"
  by (auto simp: laterOrder_def readOrderBeforeMarketplace_def readOrderAfterMarketplace_def)

lemma extrapolateAfterRead_bookkeeping:
  "bookkeeping (extrapolateAfterRead env ow ls e) = bookkeeping e"
proof -
  have "\<And>x s. bookkeeping (x\<lparr>lastSimulated := s\<rparr>) = bookkeeping x"
    by (simp add: bookkeeping_def)
  then show ?thesis
    by (simp add: extrapolateAfterRead_def Let_def simulateKinematicMotion_bookkeeping)
qed

lemma readSimulationOwner_bookkeeping:
  "readSimulationOwner env flags (d, n, e) = Some (d', n', e') \<Longrightarrow> bookkeeping e' = bookkeeping e"
  using footprint_bookkeeping [of PROP_SIMULATION_OWNER e e'] readSimulationOwner_footprint [of env flags d n e d' n' e']
  by simp

lemma readEntityProperties_bookkeeping:
  assumes "readEntityProperties env args flags ow ls (d, n, e) = Some (r, e')"
  shows "bookkeeping e' = bookkeeping e"
proof -
  from assms obtain d1 n1 e1 d2 n2 e2 d6 n6 e6 where
    1: "readSimulationOwner env flags (d, n, e) = Some (d1, n1, e1)"
    and 2: "readProperties env flags
              (ow \<and> \<not> matchesValidID (sessionUUID env) (simulationOwner e)) terseOrder (d1, n1, e1)
              = Some (d2, n2, e2)"
    and 3: "readProperties env flags ow (laterOrder env args) (d2, n2, e2) = Some (d6, n6, e6)"
    and 4: "e' = extrapolateAfterRead env ow ls e6"
    unfolding readEntityProperties_eq by (auto split: option.splits)
  have "bookkeeping e1 = bookkeeping e"
    using readSimulationOwner_bookkeeping [OF 1] .
  moreover have "bookkeeping e2 = bookkeeping e1"
    using readProperties_bookkeeping [OF 2] by (simp add: terseOrder_def)
  moreover have "bookkeeping e6 = bookkeeping e2"
    using readProperties_bookkeeping [OF 3] laterOrder_not [of PROP_CREATED env args] by simp
  ultimately show ?thesis
    using 4 by (simp add: extrapolateAfterRead_bookkeeping)
qed


section \<open>The header of a packet\<close>

lemma readUuid_SomeD: "readUuid d = Some (u, r) \<Longrightarrow> d = WUuid u # r"
  by (erule readUuid.elims) simp_all

lemma readCompressedCount_SomeD: "readCompressedCount d = Some (u, r) \<Longrightarrow> d = WCount u # r"
  by (erule readCompressedCount.elims) simp_all

lemma readValue_SomeD: "readValue d = Some (u, r) \<Longrightarrow> d = WU64 u # r"
  by (erule readValue.elims) simp_all

lemma readFlags_SomeD: "readFlags d = Some (u, r) \<Longrightarrow> d = WFlags u # r"
  by (erule readFlags.elims) simp_all

lemma readEntityHeader_shaped:
  assumes "readEntityHeader env (WUuid i # WCount t # WU64 c # WU64 lefb # rest) args e0 = Some (r, e')"
  shows "\<exists>flags ls d n upd.
           readEntityProperties env args flags
             (\<not> ignoreServerPacket
                  (acceptCreated env (case sourceNodeClockSkew args of Some skew \<Rightarrow> skew | None \<Rightarrow> 0) c
                     (e0\<lparr>entityItemID := i, entityType := of_nat t\<rparr>))
                  lefb
                  (adjustLastEdited env (case sourceNodeClockSkew args of Some skew \<Rightarrow> skew | None \<Rightarrow> 0) lefb))
             ls
             (d, n,
              if ignoreServerPacket
                  (acceptCreated env (case sourceNodeClockSkew args of Some skew \<Rightarrow> skew | None \<Rightarrow> 0) c
                     (e0\<lparr>entityItemID := i, entityType := of_nat t\<rparr>))
                  lefb
                  (adjustLastEdited env (case sourceNodeClockSkew args of Some skew \<Rightarrow> skew | None \<Rightarrow> 0) lefb)
              then acceptCreated env (case sourceNodeClockSkew args of Some skew \<Rightarrow> skew | None \<Rightarrow> 0) c
                     (e0\<lparr>entityItemID := i, entityType := of_nat t\<rparr>)
              else (acceptCreated env (case sourceNodeClockSkew args of Some skew \<Rightarrow> skew | None \<Rightarrow> 0) c
                     (e0\<lparr>entityItemID := i, entityType := of_nat t\<rparr>))
                   \<lparr>lastEdited := adjustLastEdited env (case sourceNodeClockSkew args of Some skew \<Rightarrow> skew | None \<Rightarrow> 0) lefb,
                    lastEditedFromRemote := usecTimestampNow env,
                    lastEditedFromRemoteInRemoteTime := lefb,
                    lastUpdated := adjustLastEdited env (case sourceNodeClockSkew args of Some skew \<Rightarrow> skew | None \<Rightarrow> 0) lefb + of_nat upd\<rparr>)
           = Some (r, e')"
  using assms
  by (simp add: readEntityHeader_def Let_def bind_eq_Some_conv split: if_splits) blast+

section \<open>Stale packets\<close>



lemma bookkeeping_fields:
  "bookkeeping e' = bookkeeping e \<Longrightarrow>
   lastEdited e' = lastEdited e \<and> lastEditedFromRemote e' = lastEditedFromRemote e
   \<and> lastEditedFromRemoteInRemoteTime e' = lastEditedFromRemoteInRemoteTime e
   \<and> created e' = created e \<and> entityItemID e' = entityItemID e \<and> element e' = element e"
  by (simp add: bookkeeping_def)



section \<open>Decoding the sample packets\<close>

lemmas decode_defs = readEntityDataFromBuffer_def readEntityHeader_def readEntityProperties_def
  readSimulationOwner_def READ_ENTITY_PROPERTY_def acceptCreated_def adjustLastEdited_def
  ignoreServerPacket_def isDeletedEntity_def matchesValidID_def MINIMUM_HEADER_BYTES_def
  terseOrder_def readOrderBeforeMarketplace_def readOrderAfterMarketplace_def
  valueFits_def applyProperty_def DIRTY_TRANSFORM_def DIRTY_VELOCITIES_def USECS_PER_SECOND_def
  sampleByteLength_def Let_def


lemma fresh_decode:
  "readEntityDataFromBuffer sampleEnv freshPacketData 42 sampleArgs sampleEntity
     = Some (42, sampleArgs\<lparr>entitiesPerPacket := 1\<rparr>,
         sampleEntity\<lparr>sourceUUID := 9, lastEdited := 200, lastEditedFromRemote := 1000100,
           lastEditedFromRemoteInRemoteTime := 200, lastUpdated := 200, name := ''box'',
           lastSimulated := 1000100\<rparr>)"
  by (simp add: decode_defs freshPacketData_def sampleEnv_def sampleArgs_def sampleEntity_def)


section \<open>The creation time\<close>

lemma readEntityHeader_data:
  "readEntityHeader env data args e0 = Some x \<Longrightarrow>
   \<exists>i t c lefb rest. data = WUuid i # WCount t # WU64 c # WU64 lefb # rest"
  by (auto simp: readEntityHeader_def Let_def bind_eq_Some_conv
      dest!: readUuid_SomeD readCompressedCount_SomeD readValue_SomeD)

lemma readEntityHeader_created:
  assumes "readEntityHeader env data args e0 = Some (r, e')"
    and "created e0 \<noteq> UNKNOWN_CREATED_TIME env"
  shows "created e' = created e0"
proof -
  from readEntityHeader_data [OF assms(1)] obtain i t c lefb rest where
    d: "data = WUuid i # WCount t # WU64 c # WU64 lefb # rest"
    by blast
  from readEntityHeader_shaped [OF assms(1) [unfolded d]] obtain flags ls dd k ow e5 where
    p: "readEntityProperties env args flags ow ls (dd, k, e5) = Some (r, e')"
    and c: "created e5 = created e0"
    using assms(2) by (auto simp: acceptCreated_def split: if_splits)
  from bookkeeping_fields [OF readEntityProperties_bookkeeping [OF p]] c
  show ?thesis by simp
qed

lemma SET_created:
  "changedProperties props PROP_CREATED = None \<Longrightarrow>
   created (snd (SET_ENTITY_PROPERTY_FROM_PROPERTIES env props P st)) = created (snd st)"
proof (cases "P = PROP_CREATED")
  case True
  assume "changedProperties props PROP_CREATED = None"
  then show ?thesis
    using True by (simp add: SET_ENTITY_PROPERTY_FROM_PROPERTIES_def)
next
  case False
  then show ?thesis
    using bookkeeping_fields [OF applyProperty_bookkeeping [OF False]]
    by (simp add: SET_ENTITY_PROPERTY_FROM_PROPERTIES_def split: option.splits)
qed

lemma fold_SET_created:
  "changedProperties props PROP_CREATED = None \<Longrightarrow>
   created (snd (fold (SET_ENTITY_PROPERTY_FROM_PROPERTIES env props) Ps st)) = created (snd st)"
  by (induction Ps arbitrary: st) (simp_all add: SET_created)

lemma setProperties_created:
  assumes "created e \<noteq> UNKNOWN_CREATED_TIME env"
    and "changedProperties props PROP_CREATED = None"
  shows "created (snd (setProperties env props e)) = created e"
proof -
  have "created (snd (fold (SET_ENTITY_PROPERTY_FROM_PROPERTIES env props) setOrder (False, e)))
          = created e"
    using fold_SET_created [OF assms(2), of env setOrder "(False, e)"] by simp
  then show ?thesis
    using assms(1) by (simp add: setProperties_def Let_def case_prod_unfold)
qed

text \<open>
  Claim C8, amended. Once the creation time is known, decoding a packet leaves it as it
  is, \<^verbatim>\<open>recordCreationTime\<close> leaves it as it is, and \<^verbatim>\<open>setProperties\<close> leaves it as it is when
  the properties do not mark the creation time as changed; \<^verbatim>\<open>updateCreated\<close> overwrites it
  with any value.
\<close>

theorem created_once:
  assumes known: "created e \<noteq> UNKNOWN_CREATED_TIME env"
  shows "(\<forall>data n args r args' e'.
            readEntityDataFromBuffer env data n args e = Some (r, args', e') \<longrightarrow>
            created e' = created e)
         \<and> (\<forall>props. changedProperties props PROP_CREATED = None \<longrightarrow>
               created (snd (setProperties env props e)) = created e)
         \<and> created (recordCreationTime env e) = created e
         \<and> (\<forall>v. created (updateCreated v e) = v)"
proof (intro conjI allI impI)
  fix data n and args :: ReadBitstreamToTreeParams and r
    and args' :: ReadBitstreamToTreeParams and e' :: EntityItem
  assume dec: "readEntityDataFromBuffer env data n args e = Some (r, args', e')"
  show "created e' = created e"
  proof (cases "bitstreamVersion args < VERSION_ENTITIES_SUPPORT_SPLIT_MTU env
                \<or> n < MINIMUM_HEADER_BYTES")
    case True
    then show ?thesis
      using dec by (auto simp: readEntityDataFromBuffer_def Let_def split: if_splits)
  next
    case False
    then have "readEntityHeader env data (args\<lparr>entitiesPerPacket := entitiesPerPacket args + 1\<rparr>)
                 (e\<lparr>sourceUUID := argsSourceUUID args\<rparr>) = Some (r, e')"
      using dec by (auto simp: readEntityDataFromBuffer_def Let_def)
    from readEntityHeader_created [OF this] known show ?thesis
      by simp
  qed
next
  fix props :: EntityItemProperties
  assume "changedProperties props PROP_CREATED = None"
  then show "created (snd (setProperties env props e)) = created e"
    using known by (rule setProperties_created [rotated])
next
  show "created (recordCreationTime env e) = created e"
    using known by (simp add: recordCreationTime_def Let_def)
next
  fix v
  show "created (updateCreated v e) = v"
    by (simp add: updateCreated_def)
qed

text \<open>
  Claim C8 as stated fails: the sample entity was created at time 50, and both
  \<^verbatim>\<open>updateCreated\<close> and \<^verbatim>\<open>setProperties\<close> with a changed creation time move it back to 10.
\<close>

theorem created_once_counterexample:
  "created sampleEntity = 50
   \<and> created sampleEntity \<noteq> UNKNOWN_CREATED_TIME sampleEnv
   \<and> created (updateCreated 10 sampleEntity) = 10
   \<and> created (snd (setProperties sampleEnv createdProperties sampleEntity)) = 10"
proof -
  have "\<And>Ps st. PROP_CREATED \<notin> set Ps \<Longrightarrow>
          fold (SET_ENTITY_PROPERTY_FROM_PROPERTIES sampleEnv createdProperties) Ps st = st"
  proof -
    fix Ps st
    show "PROP_CREATED \<notin> set Ps \<Longrightarrow>
          fold (SET_ENTITY_PROPERTY_FROM_PROPERTIES sampleEnv createdProperties) Ps st = st"
      by (induction Ps arbitrary: st)
         (auto simp: SET_ENTITY_PROPERTY_FROM_PROPERTIES_def createdProperties_def)
  qed
  then have "fold (SET_ENTITY_PROPERTY_FROM_PROPERTIES sampleEnv createdProperties) setOrder
               (False, sampleEntity)
             = (True, updateCreated 10 sampleEntity)"
    by (simp add: setOrder_def SET_ENTITY_PROPERTY_FROM_PROPERTIES_def createdProperties_def
        applyProperty_def valueFits_def)
  then show ?thesis
    by (simp add: setProperties_def Let_def updateCreated_def createdProperties_def
        sampleEntity_def sampleEnv_def)
qed

text \<open>
  The sample entity, whose creation time is known, decodes the fresh sample packet and
  keeps its creation time.
\<close>

theorem created_once_witness:
  "created sampleEntity \<noteq> UNKNOWN_CREATED_TIME sampleEnv
   \<and> readEntityDataFromBuffer sampleEnv freshPacketData 42 sampleArgs sampleEntity
       = Some (42, sampleArgs\<lparr>entitiesPerPacket := 1\<rparr>,
           sampleEntity\<lparr>sourceUUID := 9, lastEdited := 200, lastEditedFromRemote := 1000100,
             lastEditedFromRemoteInRemoteTime := 200, lastUpdated := 200, name := ''box'',
             lastSimulated := 1000100\<rparr>)
   \<and> created (sampleEntity\<lparr>sourceUUID := 9, lastEdited := 200, lastEditedFromRemote := 1000100,
             lastEditedFromRemoteInRemoteTime := 200, lastUpdated := 200, name := ''box'',
             lastSimulated := 1000100\<rparr>) = 50
   \<and> created (recordCreationTime sampleEnv sampleEntity) = 50"
proof -
  have k: "created sampleEntity \<noteq> UNKNOWN_CREATED_TIME sampleEnv"
    by (simp add: sampleEntity_def sampleEnv_def)
  have c: "created sampleEntity = 50"
    by (simp add: sampleEntity_def)
  note co = created_once [OF k]
  have 1: "created (sampleEntity\<lparr>sourceUUID := 9, lastEdited := 200, lastEditedFromRemote := 1000100,
             lastEditedFromRemoteInRemoteTime := 200, lastUpdated := 200, name := ''box'',
             lastSimulated := 1000100\<rparr>) = created sampleEntity"
    using co [THEN conjunct1, rule_format, OF fresh_decode] .
  have 2: "created (recordCreationTime sampleEnv sampleEntity) = created sampleEntity"
    using co [THEN conjunct2, THEN conjunct2, THEN conjunct1] .
  from k fresh_decode 1 2 c show ?thesis
    by simp
qed

section \<open>One second of motion\<close>

lemma one_second_motion:
  assumes "\<not> hasActions e" "hasVelocity e" "\<not> hasAngularVelocity e" "damping e = 0"
    "velocity e = (1, 0, 0)" "acceleration e = (0, 0, 0)" "localPosition e = (0, 0, 0)"
  shows "simulateKinematicMotion env 1 False e = e\<lparr>localPosition := (1, 0, 0)\<rparr>"
proof -
  have a: "simulateAngular env 1 False e = e"
    using assms(3) by (simp add: simulateAngular_def)
  have l: "simulateLinear 1 False e = e\<lparr>localPosition := (1, 0, 0)\<rparr>"
    using assms
    by (simp add: simulateLinear_def hasAcceleration_def ENTITY_ITEM_ZERO_VEC3_def
        EPSILON_LINEAR_VELOCITY_LENGTH_def Let_def)
  show ?thesis
    using assms(1) by (simp add: simulateKinematicMotion_def glm_clamp_def Let_def a l)
qed

section \<open>A packet for a record that the local peer simulates\<close>

lemma owned_facts:
  "\<not> hasActions ownedEntity" "hasVelocity ownedEntity" "\<not> hasAngularVelocity ownedEntity"
  "damping ownedEntity = 0" "velocity ownedEntity = (1, 0, 0)" "acceleration ownedEntity = (0, 0, 0)"
  "localPosition ownedEntity = (0, 0, 0)" "gravity ownedEntity = (0, 0, 0)"
  "dirtyFlags ownedEntity = {}"
  "matchesValidID (sessionUUID sampleEnv) (simulationOwner ownedEntity)"
  "created ownedEntity = 50" "lastEdited ownedEntity = 100"
  "lastEditedFromRemoteInRemoteTime ownedEntity = 0"
  "element ownedEntity = Some \<lparr>deletedEntities = []\<rparr>"
  by (simp_all add: ownedEntity_def sampleEntity_def hasActions_def hasVelocity_def
      hasAngularVelocity_def ENTITY_ITEM_ZERO_VEC3_def matchesValidID_def sampleEnv_def)

lemma owned_terse:
  "readProperties sampleEnv {PROP_POSITION, PROP_VELOCITY, PROP_GRAVITY} False terseOrder
     (WProp (VVec3 p) # WProp (VVec3 v) # rest, n, e)
   = Some (rest, n + 24, e)"
  by (simp add: terseOrder_def READ_ENTITY_PROPERTY_def valueFits_def sampleEnv_def
      sampleByteLength_def)

lemma owned_later:
  "readProperties sampleEnv {PROP_POSITION, PROP_VELOCITY, PROP_GRAVITY} True
     (laterOrder sampleEnv (sampleArgs\<lparr>entitiesPerPacket := k\<rparr>)) ([WProp (VVec3 g)], n, e)
   = Some ([], n + 12, updateGravity g e)"
  by (simp add: laterOrder_def readOrderBeforeMarketplace_def readOrderAfterMarketplace_def
      READ_ENTITY_PROPERTY_def valueFits_def applyProperty_def sampleEnv_def sampleArgs_def
      sampleByteLength_def)

lemma owned_properties:
  assumes "matchesValidID (sessionUUID sampleEnv) (simulationOwner e)"
  shows "readEntityProperties sampleEnv (sampleArgs\<lparr>entitiesPerPacket := k\<rparr>) {PROP_POSITION, PROP_VELOCITY, PROP_GRAVITY}
           True ls ([WProp (VVec3 p), WProp (VVec3 v), WProp (VVec3 g)], n, e)
         = Some (n + 36, extrapolateAfterRead sampleEnv True ls (updateGravity g e))"
  unfolding readEntityProperties_eq
  using assms by (simp add: readSimulationOwner_def owned_terse owned_later)

lemma owned_header:
  assumes "created e = 50" "lastEdited e = 100" "lastEditedFromRemoteInRemoteTime e = 0"
    "element e = Some \<lparr>deletedEntities = []\<rparr>"
  shows "readEntityHeader sampleEnv transformPacketData (sampleArgs\<lparr>entitiesPerPacket := k\<rparr>) e
         = readEntityProperties sampleEnv (sampleArgs\<lparr>entitiesPerPacket := k\<rparr>)
             {PROP_POSITION, PROP_VELOCITY, PROP_GRAVITY} True 100
             ([WProp (VVec3 (5, 5, 5)), WProp (VVec3 (2, 0, 0)), WProp (VVec3 (0, -1, 0))], 37,
              e\<lparr>entityItemID := 1, entityType := 2, lastEdited := 100,
                lastEditedFromRemote := 1000100, lastEditedFromRemoteInRemoteTime := 100,
                lastUpdated := 100\<rparr>)"
  using assms
  by (simp add: readEntityHeader_def transformPacketData_def acceptCreated_def
      adjustLastEdited_def ignoreServerPacket_def isDeletedEntity_def sampleEnv_def
      sampleArgs_def sampleByteLength_def Let_def)

lemma owned_extrapolate:
  assumes "\<not> hasActions e" "hasVelocity e" "\<not> hasAngularVelocity e" "damping e = 0"
    "velocity e = (1, 0, 0)" "acceleration e = (0, 0, 0)" "localPosition e = (0, 0, 0)"
    "gravity e = (0, 0, 0)" "dirtyFlags e = {}"
    "matchesValidID (sessionUUID sampleEnv) (simulationOwner e)"
  shows "extrapolateAfterRead sampleEnv True 100 (updateGravity (0, -1, 0) e)
         = e\<lparr>gravity := (0, -1, 0), dirtyFlags := {DIRTY_LINEAR_VELOCITY},
             localPosition := (1, 0, 0)\<rparr>"
proof -
  let ?g = "e\<lparr>gravity := (0, -1, 0), dirtyFlags := {DIRTY_LINEAR_VELOCITY}\<rparr>"
  have g: "updateGravity (0, -1, 0) e = ?g"
    using assms(8,9) by (simp add: updateGravity_def)
  have t: "real (unat (usecTimestampNow sampleEnv - 100)) / real (unat USECS_PER_SECOND) = 1"
    by (simp add: sampleEnv_def USECS_PER_SECOND_def)
  have m: "simulateKinematicMotion sampleEnv 1 False ?g = ?g\<lparr>localPosition := (1, 0, 0)\<rparr>"
    by (rule one_second_motion)
       (use assms in \<open>simp_all add: hasActions_def hasVelocity_def hasAngularVelocity_def\<close>)
  have d: "dirtyFlags ?g \<inter> (DIRTY_TRANSFORM \<union> DIRTY_VELOCITIES) \<noteq> {}"
    by (simp add: DIRTY_TRANSFORM_def DIRTY_VELOCITIES_def)
  have o: "matchesValidID (sessionUUID sampleEnv) (simulationOwner (?g\<lparr>localPosition := (1, 0, 0)\<rparr>))"
    using assms(10) by simp
  show ?thesis
    unfolding g extrapolateAfterRead_def Let_def t m
    using d o by simp
qed

text \<open>
  Claim C3 at a record that the local peer simulates. The simulation owner of the record
  is the session id, the record is at (0, 0, 0) and moves at (1, 0, 0), and a packet
  arrives that is not ignored and carries a position, a velocity and a gravity. The
  position and the velocity of the packet are not applied; the gravity is, which raises
  the dirty bit of the linear velocity; and the extrapolation at the end of
  \<^verbatim>\<open>readEntityDataFromBuffer\<close>, which asks only for \<^verbatim>\<open>overwriteLocalData\<close> and a dirty
  transform or velocity, moves the record to (1, 0, 0).
\<close>

theorem self_owned_extrapolation:
  "matchesValidID (sessionUUID sampleEnv) (simulationOwner ownedEntity)
   \<and> localPosition ownedEntity = (0, 0, 0)
   \<and> velocity ownedEntity = (1, 0, 0)
   \<and> readEntityDataFromBuffer sampleEnv transformPacketData 73 sampleArgs ownedEntity
       = Some (73, sampleArgs\<lparr>entitiesPerPacket := 1\<rparr>,
           ownedEntity\<lparr>sourceUUID := 9, lastEdited := 100, lastEditedFromRemote := 1000100,
             lastEditedFromRemoteInRemoteTime := 100, lastUpdated := 100,
             gravity := (0, -1, 0), dirtyFlags := {DIRTY_LINEAR_VELOCITY},
             localPosition := (1, 0, 0)\<rparr>)"
proof -
  let ?e0 = "ownedEntity\<lparr>sourceUUID := 9\<rparr>"
  let ?e5 = "?e0\<lparr>entityItemID := 1, entityType := 2, lastEdited := 100,
                lastEditedFromRemote := 1000100, lastEditedFromRemoteInRemoteTime := 100,
                lastUpdated := 100\<rparr>"
  have h: "readEntityHeader sampleEnv transformPacketData (sampleArgs\<lparr>entitiesPerPacket := 1\<rparr>) ?e0
           = readEntityProperties sampleEnv (sampleArgs\<lparr>entitiesPerPacket := 1\<rparr>)
               {PROP_POSITION, PROP_VELOCITY, PROP_GRAVITY} True 100
               ([WProp (VVec3 (5, 5, 5)), WProp (VVec3 (2, 0, 0)), WProp (VVec3 (0, -1, 0))], 37, ?e5)"
    by (rule owned_header) (simp_all add: owned_facts)
  have p: "readEntityProperties sampleEnv (sampleArgs\<lparr>entitiesPerPacket := 1\<rparr>)
               {PROP_POSITION, PROP_VELOCITY, PROP_GRAVITY} True 100
               ([WProp (VVec3 (5, 5, 5)), WProp (VVec3 (2, 0, 0)), WProp (VVec3 (0, -1, 0))], 37, ?e5)
           = Some (37 + 36, extrapolateAfterRead sampleEnv True 100 (updateGravity (0, -1, 0) ?e5))"
    by (rule owned_properties) (simp add: owned_facts)
  have x: "extrapolateAfterRead sampleEnv True 100 (updateGravity (0, -1, 0) ?e5)
           = ?e5\<lparr>gravity := (0, -1, 0), dirtyFlags := {DIRTY_LINEAR_VELOCITY},
                 localPosition := (1, 0, 0)\<rparr>"
    by (rule owned_extrapolate)
       (use owned_facts in \<open>simp_all add: hasActions_def hasVelocity_def hasAngularVelocity_def\<close>)
  have q: "readEntityProperties sampleEnv (sampleArgs\<lparr>entitiesPerPacket := 1\<rparr>)
               {PROP_POSITION, PROP_VELOCITY, PROP_GRAVITY} True 100
               ([WProp (VVec3 (5, 5, 5)), WProp (VVec3 (2, 0, 0)), WProp (VVec3 (0, -1, 0))], 37, ?e5)
           = Some (73, ?e5\<lparr>gravity := (0, -1, 0), dirtyFlags := {DIRTY_LINEAR_VELOCITY},
                 localPosition := (1, 0, 0)\<rparr>)"
    unfolding p x by simp
  have i: "?e5\<lparr>gravity := (0, -1, 0), dirtyFlags := {DIRTY_LINEAR_VELOCITY},
                 localPosition := (1, 0, 0)\<rparr>
           = ownedEntity\<lparr>sourceUUID := 9, lastEdited := 100, lastEditedFromRemote := 1000100,
               lastEditedFromRemoteInRemoteTime := 100, lastUpdated := 100,
               gravity := (0, -1, 0), dirtyFlags := {DIRTY_LINEAR_VELOCITY},
               localPosition := (1, 0, 0)\<rparr>"
    by (simp add: ownedEntity_def sampleEntity_def)
  have "readEntityDataFromBuffer sampleEnv transformPacketData 73 sampleArgs ownedEntity
          = map_option (\<lambda>(bytesRead, e'). (bytesRead, sampleArgs\<lparr>entitiesPerPacket := 1\<rparr>, e'))
              (readEntityHeader sampleEnv transformPacketData (sampleArgs\<lparr>entitiesPerPacket := 1\<rparr>) ?e0)"
    by (simp add: readEntityDataFromBuffer_def MINIMUM_HEADER_BYTES_def sampleEnv_def
        sampleArgs_def Let_def)
  then have "readEntityDataFromBuffer sampleEnv transformPacketData 73 sampleArgs ownedEntity
       = Some (73, sampleArgs\<lparr>entitiesPerPacket := 1\<rparr>,
           ownedEntity\<lparr>sourceUUID := 9, lastEdited := 100, lastEditedFromRemote := 1000100,
             lastEditedFromRemoteInRemoteTime := 100, lastUpdated := 100,
             gravity := (0, -1, 0), dirtyFlags := {DIRTY_LINEAR_VELOCITY},
             localPosition := (1, 0, 0)\<rparr>)"
    unfolding h q i by simp
  then show ?thesis
    by (simp add: owned_facts)
qed

section \<open>What the encoder writes\<close>








section \<open>Decoding what the encoder wrote\<close>






















section \<open>A budget that suffices\<close>






section \<open>The round trip\<close>



section \<open>Round trips of the samples\<close>
















end
